theory Spec2Isabelle
  imports Complex_Main
begin

chapter \<open>The image actions of img-studio: normalizers, generate, edit, upscale\<close>

text \<open>
  A shallow embedding of \<^verbatim>\<open>src/app/api/nano-banana/action.tsx\<close>. Pure helpers are
  functions on strings; an \<^verbatim>\<open>async\<close> function is the function from the answers of
  the collaborators it awaits to its own outcome, \<open>Inl\<close> for a thrown error (a rejected
  promise) and \<open>Inr\<close> for a returned value. The collaborators (cloud storage, the
  authenticated client, the clock and \<^verbatim>\<open>Math.random\<close>) are parameters: every property
  below holds for all their answers unless a hypothesis restricts them.
\<close>

section \<open>JavaScript strings and numbers, as far as action.tsx uses them\<close>

text \<open>
  Strings are lists of characters. The case mappings below are the ASCII ones; on a
  string of ASCII characters they agree with \<^verbatim>\<open>toUpperCase\<close> and
  \<^verbatim>\<open>toLowerCase\<close>. Replacement strings in the source are constants without
  \<^verbatim>\<open>$\<close> patterns, so \<^verbatim>\<open>replace\<close> is plain substitution.
\<close>

fun startsWith :: "string \<Rightarrow> string \<Rightarrow> bool" where
  "startsWith s [] = True"
| "startsWith [] (p # ps) = False"
| "startsWith (c # cs) (p # ps) = (c = p \<and> startsWith cs ps)"

definition endsWith :: "string \<Rightarrow> string \<Rightarrow> bool" where
  "endsWith s suf = startsWith (rev s) (rev suf)"

fun includes_str :: "string \<Rightarrow> string \<Rightarrow> bool" where
  "includes_str [] sub = (sub = [])"
| "includes_str (c # cs) sub = (startsWith (c # cs) sub \<or> includes_str cs sub)"

text \<open>\<^verbatim>\<open>s.replace(pat, rep)\<close> with a string pattern: the first occurrence only.\<close>

fun replaceFirst :: "string \<Rightarrow> string \<Rightarrow> string \<Rightarrow> string" where
  "replaceFirst [] pat rep = (if pat = [] then rep else [])"
| "replaceFirst (c # cs) pat rep =
     (if startsWith (c # cs) pat then rep @ drop (length pat) (c # cs)
      else c # replaceFirst cs pat rep)"

text \<open>
  \<^verbatim>\<open>s.replaceAll(pat, rep)\<close> and \<^verbatim>\<open>s.replace(/pat/g, rep)\<close> for a literal,
  non-empty pattern: every occurrence, scanning from the left, matches not overlapping.
  The source only passes non-empty constant patterns.
\<close>

function replaceAll :: "string \<Rightarrow> string \<Rightarrow> string \<Rightarrow> string" where
  "replaceAll [] pat rep = []"
| "replaceAll (c # cs) pat rep =
     (if pat \<noteq> [] \<and> startsWith (c # cs) pat
      then rep @ replaceAll (drop (length pat) (c # cs)) pat rep
      else c # replaceAll cs pat rep)"
  by pat_completeness auto
termination
  by (relation "measure (\<lambda>(s, pat, rep). length s)") auto

text \<open>
  \<^verbatim>\<open>s.split(sep)\<close>: the pieces between the occurrences of the separator; the
  empty separator splits into single characters.
\<close>

function split :: "string \<Rightarrow> string \<Rightarrow> string list" where
  "split [] sep = (if sep = [] then [] else [[]])"
| "split (c # cs) sep =
     (if sep = [] then [c] # split cs sep
      else if startsWith (c # cs) sep then [] # split (drop (length sep) (c # cs)) sep
      else (case split cs sep of [] \<Rightarrow> [[c]] | w # ws \<Rightarrow> (c # w) # ws))"
  by pat_completeness auto
termination
  by (relation "measure (\<lambda>(s, sep). length s)") auto

definition lowerLetters :: string where
  "lowerLetters = ''abcdefghijklmnopqrstuvwxyz''"

definition upperLetters :: string where
  "upperLetters = ''ABCDEFGHIJKLMNOPQRSTUVWXYZ''"

definition toUpperCaseChar :: "char \<Rightarrow> char" where
  "toUpperCaseChar c =
     (case map_of (zip lowerLetters upperLetters) c of None \<Rightarrow> c | Some u \<Rightarrow> u)"

definition toLowerCaseChar :: "char \<Rightarrow> char" where
  "toLowerCaseChar c =
     (case map_of (zip upperLetters lowerLetters) c of None \<Rightarrow> c | Some l \<Rightarrow> l)"

definition toUpperCase :: "string \<Rightarrow> string" where
  "toUpperCase s = map toUpperCaseChar s"

definition toLowerCase :: "string \<Rightarrow> string" where
  "toLowerCase s = map toLowerCaseChar s"

text \<open>The white space \<^verbatim>\<open>trim\<close> removes, among ASCII: tab, LF, VT, FF, CR, space.\<close>

definition isWhiteSpace :: "char \<Rightarrow> bool" where
  "isWhiteSpace c = (c \<in> set [CHR 0x09, CHR 0x0A, CHR 0x0B, CHR 0x0C, CHR 0x0D, CHR '' ''])"

definition trim :: "string \<Rightarrow> string" where
  "trim s = rev (dropWhile isWhiteSpace (rev (dropWhile isWhiteSpace s)))"

text \<open>\<^verbatim>\<open>n.toString()\<close> of an integer: its decimal digits, with a minus sign below 0.\<close>

definition digitChar :: "nat \<Rightarrow> char" where
  "digitChar d = ''0123456789'' ! d"

function toStringDigits :: "int \<Rightarrow> string" where
  "toStringDigits n =
     (if n < 10 then [digitChar (nat n)]
      else toStringDigits (n div 10) @ [digitChar (nat (n mod 10))])"
  by pat_completeness auto
termination
  by (relation "measure nat") auto

declare toStringDigits.simps [simp del]

definition toString :: "int \<Rightarrow> string" where
  "toString n = (if n < 0 then CHR ''-'' # toStringDigits (- n) else toStringDigits n)"

text \<open>
  \<^verbatim>\<open>xs.findIndex(p)\<close>: the index of the first element satisfying \<open>p\<close>, \<open>-1\<close> when
  there is none.
\<close>

fun findIndexFrom :: "int \<Rightarrow> ('a \<Rightarrow> bool) \<Rightarrow> 'a list \<Rightarrow> int" where
  "findIndexFrom k p [] = - 1"
| "findIndexFrom k p (x # xs) = (if p x then k else findIndexFrom (k + 1) p xs)"

definition findIndex :: "('a \<Rightarrow> bool) \<Rightarrow> 'a list \<Rightarrow> int" where
  "findIndex p xs = findIndexFrom 0 p xs"

section \<open>Helpers of action.tsx\<close>

text \<open>
  \<^verbatim>\<open>cleanResult\<close> (lines 32-34) deletes every line feed, slash and asterisk.
\<close>

definition cleanResult :: "string \<Rightarrow> string" where
  "cleanResult inputString =
     replaceAll (replaceAll (replaceAll inputString [CHR 0x0A] []) ''/'' []) ''*'' []"

section \<open>Doubles and the folder id\<close>

text \<open>
  The numbers of the source are IEEE 754 doubles, and every product and sum is rounded
  to the nearest double, ties to the even significand. A double is modelled by the real
  number it stands for. \<open>pow2 e\<close> is \<open>2 ^ e\<close>; \<open>exponent x\<close> is the exponent of the binade
  of \<open>x\<close>, the \<open>e\<close> with \<open>2 ^ e \<le> \<bar>x\<bar> < 2 ^ (e + 1)\<close>, found by a search from 0 that
  carries the power of two along and stops at the range of the format (-1022 for the
  subnormal numbers, 1023); \<open>ulp x\<close> is the distance of two neighbouring doubles there
  (53 significant bits); \<open>fl x\<close> rounds \<open>x\<close> to a multiple of \<open>ulp x\<close>. The overflow to
  \<^verbatim>\<open>Infinity\<close> is left out: no number of this program comes near \<open>2 ^ 1024\<close>.
\<close>

definition pow2 :: "int \<Rightarrow> real" where
  "pow2 e = (if 0 \<le> e then 2 ^ nat e else 1 / 2 ^ nat (- e))"

definition roundHalfEven :: "real \<Rightarrow> int" where
  "roundHalfEven y =
     (let f = \<lfloor>y\<rfloor>; d = y - of_int f
      in if d < 1 / 2 then f else if 1 / 2 < d then f + 1 else if even f then f else f + 1)"

function exponentUp :: "int \<Rightarrow> real \<Rightarrow> real \<Rightarrow> int" where
  "exponentUp e p x = (if 1023 \<le> e \<or> x < p then e else exponentUp (e + 1) (2 * p) x)"
  by pat_completeness auto
termination
  by (relation "measure (\<lambda>(e, p, x). nat (1023 - e))") auto

function exponentDown :: "int \<Rightarrow> real \<Rightarrow> real \<Rightarrow> int" where
  "exponentDown e p x = (if e \<le> - 1022 \<or> p \<le> x then e else exponentDown (e - 1) (p / 2) x)"
  by pat_completeness auto
termination
  by (relation "measure (\<lambda>(e, p, x). nat (e + 1022))") auto

declare exponentUp.simps [simp del] exponentDown.simps [simp del]

definition exponent :: "real \<Rightarrow> int" where
  "exponent x = (if 1 \<le> \<bar>x\<bar> then exponentUp 0 2 \<bar>x\<bar> else exponentDown (- 1) (1 / 2) \<bar>x\<bar>)"

definition ulp :: "real \<Rightarrow> real" where
  "ulp x = pow2 (exponent x - 52)"

definition fl :: "real \<Rightarrow> real" where
  "fl x = (if x = 0 then 0 else let u = ulp x in of_int (roundHalfEven (x / u)) * u)"

text \<open>The real number \<open>x\<close> is a double: rounding leaves it as it is.\<close>

definition isDouble :: "real \<Rightarrow> bool" where
  "isDouble x = (fl x = x)"

text \<open>\<^verbatim>\<open>Math.floor\<close>: the result is an integer, hence a double, for every double.\<close>

definition Math_floor :: "real \<Rightarrow> real" where
  "Math_floor x = of_int \<lfloor>x\<rfloor>"

text \<open>
  A number in a string concatenation (\<^verbatim>\<open>'/' + uniqueFolderId\<close>): for an integer below
  \<open>10 ^ 21\<close>, as the folder ids are, its decimal digits.
\<close>

definition numberToString :: "real \<Rightarrow> string" where
  "numberToString x = toString \<lfloor>x\<rfloor>"

text \<open>
  \<^verbatim>\<open>generateUniqueFolderId\<close> (lines 36-40). \<open>rnd k\<close> is the value of the \<open>k\<close>-th call
  of \<^verbatim>\<open>Math.random()\<close>, a double in \<open>[0, 1)\<close>. The loop variable \<open>i\<close> runs from 0 to
  11. Each product and each sum of the source is rounded: \<^verbatim>\<open>Math.floor\<close> is applied to
  the double \<open>fl (rnd k * 10)\<close>, which can be the next integer when the product of the
  reals lies just below it.
\<close>

function folderIdLoop :: "(nat \<Rightarrow> real) \<Rightarrow> nat \<Rightarrow> real \<Rightarrow> real" where
  "folderIdLoop rnd i number =
     (if i < 12
      then folderIdLoop rnd (i + 1) (fl (fl (number * 10) + Math_floor (fl (rnd (i + 1) * 10))))
      else number)"
  by pat_completeness auto
termination
  by (relation "measure (\<lambda>(rnd, i, number). 12 - i)") auto

declare folderIdLoop.simps [simp del]

definition generateUniqueFolderId :: "(nat \<Rightarrow> real) \<Rightarrow> real" where
  "generateUniqueFolderId rnd = folderIdLoop rnd 0 (fl (Math_floor (fl (rnd 0 * 9)) + 1))"

text \<open>
  \<^verbatim>\<open>normalizeSentence\<close> (lines 42-71). The loop over the words carries the sentence
  built so far and the flag \<^verbatim>\<open>newSentence\<close>; \<^verbatim>\<open>charAt(0)\<close> and \<^verbatim>\<open>slice(1)\<close>
  of the empty word are empty.
\<close>

definition charAt0 :: "string \<Rightarrow> string" where
  "charAt0 word = take 1 word"

definition slice1 :: "string \<Rightarrow> string" where
  "slice1 word = drop 1 word"

fun normalizeLoop :: "string list \<Rightarrow> string \<Rightarrow> bool \<Rightarrow> string" where
  "normalizeLoop [] normalizedSentence newSentence = normalizedSentence"
| "normalizeLoop (w # ws) normalizedSentence newSentence =
     (let word = (if newSentence then toUpperCase (charAt0 w) @ slice1 w else w);
          newSentence1 = (if newSentence then False else newSentence);
          newSentence2 =
            (if endsWith word ''.'' \<or> endsWith word ''!'' \<or> endsWith word ''?''
             then True else newSentence1)
      in normalizeLoop ws (normalizedSentence @ word @ '' '') newSentence2)"

text \<open>\<^verbatim>\<open>s.replace(/  +/g, ' ')\<close>: every run of two or more spaces becomes one space.\<close>

function collapseSpaces :: "string \<Rightarrow> string" where
  "collapseSpaces [] = []"
| "collapseSpaces (c # cs) =
     (if c = CHR '' '' \<and> startsWith cs '' ''
      then CHR '' '' # collapseSpaces (dropWhile (\<lambda>x. x = CHR '' '') cs)
      else c # collapseSpaces cs)"
  by pat_completeness auto
termination
  by (relation "measure length") (auto simp: less_Suc_eq_le length_dropWhile_le)

definition normalizeSentence :: "string \<Rightarrow> string" where
  "normalizeSentence sentence =
     (let words = split (toLowerCase sentence) '' '';
          normalizedSentence1 = normalizeLoop words [] True;
          normalizedSentence2 = collapseSpaces normalizedSentence1;
          normalizedSentence3 = trim normalizedSentence2
      in replaceAll normalizedSentence3 '', ,'' '','')"

text \<open>
  \<^verbatim>\<open>generatePrompt\<close> (lines 73-104). The form is read by key; a key that is absent
  reads \<^verbatim>\<open>undefined\<close>, which a template literal and \<^verbatim>\<open>+\<close> render as the word
  "undefined". The list of prompt fields \<^verbatim>\<open>imageGenerationUtils.fullPromptFields\<close> is
  declared outside this file and is a parameter.
\<close>

definition render :: "string option \<Rightarrow> string" where
  "render v = (case v of None \<Rightarrow> ''undefined'' | Some s \<Rightarrow> s)"

fun promptParameters :: "(string \<Rightarrow> string option) \<Rightarrow> string list \<Rightarrow> string \<Rightarrow> string" where
  "promptParameters formData [] parameters = parameters"
| "promptParameters formData (additionalField # fields) parameters =
     promptParameters formData fields
       (if formData additionalField \<noteq> Some []
        then parameters @ '' '' @ render (formData additionalField) @ '' ''
               @ replaceAll additionalField ''_'' '' '' @ '', ''
        else parameters)"

definition generatePrompt :: "string list \<Rightarrow> (string \<Rightarrow> string option) \<Rightarrow> string" where
  "generatePrompt fullPromptFields formData =
     (let fullPrompt1 = ''A '' @ render (formData ''secondary_style'') @ '' ''
                          @ render (formData ''style'') @ '' of '' @ render (formData ''prompt'');
          parameters = promptParameters formData fullPromptFields [];
          fullPrompt2 = (if parameters \<noteq> [] then fullPrompt1 @ '', '' @ parameters else fullPrompt1);
          q1 = (if formData ''use_case'' = Some ''Food, insects, plants (still life)''
                then '', High detail, precise focusing, controlled lighting'' else []);
          q2 = (if formData ''use_case'' = Some ''Sports, wildlife (motion)''
                then q1 @ '', Fast shutter speed, movement tracking'' else q1);
          quality_modifiers =
            (if formData ''use_case'' = Some ''Astronomical, landscape (wide-angle)''
             then q2 @ '', Long exposure times, sharp focus, long exposure, smooth water or clouds''
             else q2)
      in normalizeSentence (fullPrompt2 @ quality_modifiers))"

section \<open>Data model\<close>

text \<open>
  A thrown value. The catch blocks of the source cast what they catch to \<^verbatim>\<open>Error\<close>
  (optionally with a nested list \<^verbatim>\<open>errors\<close>, whose entries carry a \<^verbatim>\<open>message\<close>),
  so a thrown value is an error object: its name, its message, and the nested list when
  the object has one.
\<close>

datatype JsError = ErrorObject string string "string option list option"

definition Error :: "string \<Rightarrow> JsError" where
  "Error msg = ErrorObject ''Error'' msg None"

definition TypeError :: "string \<Rightarrow> JsError" where
  "TypeError msg = ErrorObject ''TypeError'' msg None"

text \<open>Reading property \<open>k\<close> of \<^verbatim>\<open>undefined\<close> throws this.\<close>

definition cannotRead :: "string \<Rightarrow> JsError" where
  "cannotRead k =
     TypeError (''Cannot read properties of undefined (reading '' @ [CHR 0x27] @ k @ [CHR 0x27] @ '')'')"

fun errorMessage :: "JsError \<Rightarrow> string" where
  "errorMessage (ErrorObject n m es) = m"

fun errorErrors :: "JsError \<Rightarrow> string option list option" where
  "errorErrors (ErrorObject n m es) = es"

text \<open>\<^verbatim>\<open>Error.prototype.toString\<close>.\<close>

fun errorToString :: "JsError \<Rightarrow> string" where
  "errorToString (ErrorObject n m es) =
     (if n = [] then m else if m = [] then n else n @ '': '' @ m)"

text \<open>
  Modelled from the spec: \<^verbatim>\<open>ImagenModelResultI\<close> is declared in
  \<^verbatim>\<open>generate-image-utils\<close>, outside this file. A model result carries
  \<^verbatim>\<open>bytesBase64Encoded\<close> or \<^verbatim>\<open>gcsUri\<close>, a \<^verbatim>\<open>mimeType\<close> and an optional
  \<^verbatim>\<open>prompt\<close>, or it carries \<^verbatim>\<open>raiFilteredReason\<close>. An optional property that is
  absent is \<open>None\<close>; \<^verbatim>\<open>'raiFilteredReason' in image\<close> is \<open>raiFilteredReason image \<noteq> None\<close>.
  The \<^verbatim>\<open>mimeType\<close> of a filtered result is never read.
\<close>

record ImagenModelResultI =
  gcsUri :: "string option"
  bytesBase64Encoded :: "string option"
  mimeType :: string
  prompt :: "string option"
  raiFilteredReason :: "string option"

text \<open>
  The display record a normalizer returns for one image (lines 153-167 and 247-261), and
  the two substitutes \<^verbatim>\<open>{warning}\<close> and \<^verbatim>\<open>{error}\<close>. Field \<open>imgSrc\<close> is the
  property \<^verbatim>\<open>src\<close>, \<open>imgGcsUri\<close> is \<^verbatim>\<open>gcsUri\<close>, and so on.
\<close>

record ImageI =
  imgSrc :: string
  imgGcsUri :: "string option"
  imgFormat :: string
  imgPrompt :: string
  imgAltText :: string
  imgKey :: string
  imgWidth :: int
  imgHeight :: int
  imgRatio :: string
  imgDate :: string
  imgAuthor :: string
  imgModelVersion :: string
  imgMode :: string

datatype DisplayImage = Success ImageI | WarningRecord string | ErrorRecord string

text \<open>
  What the cloud-storage collaborators answer (\<^verbatim>\<open>../cloud-storage/action\<close>, outside this
  file): \<^verbatim>\<open>getSignedURL\<close> a string or \<^verbatim>\<open>{error}\<close>, \<^verbatim>\<open>uploadBase64Image\<close> an
  object \<^verbatim>\<open>{success, fileUrl?, error?}\<close> (fields \<open>upSuccess\<close>, \<open>upFileUrl\<close>, \<open>upError\<close>), \<^verbatim>\<open>decomposeUri\<close> an object whose
  \<^verbatim>\<open>fileName\<close> may be missing. Each call may also reject (\<open>Inl\<close>).
\<close>

datatype SignedURLResult = SignedURL string | SignedURLError string

record UploadResult =
  upSuccess :: bool
  upFileUrl :: "string option"
  upError :: "string option"

text \<open>
  The world a normalizer runs in. The calls of one image are told apart by the index of
  the image in the batch, so that the collaborators may answer every call differently.
  Every awaited call is modelled by the outcome it settles with. \<open>random\<close> lists the values
  of \<^verbatim>\<open>Math.random()\<close>; \<open>formattedDate i\<close> is
  \<^verbatim>\<open>new Date().toLocaleDateString('en-US', ...)\<close> as image \<open>i\<close> sees it.
\<close>

record Storage =
  decomposeUri :: "nat \<Rightarrow> string \<Rightarrow> JsError + string option"
  getSignedURL :: "nat \<Rightarrow> string \<Rightarrow> JsError + SignedURLResult"
  uploadBase64Image :: "nat \<Rightarrow> string \<Rightarrow> string \<Rightarrow> string \<Rightarrow> JsError + UploadResult"
  random :: "nat \<Rightarrow> real"
  formattedDate :: "nat \<Rightarrow> string"

section \<open>The result normalizers\<close>

definition orEmpty :: "string option \<Rightarrow> string" where
  "orEmpty v = (case v of None \<Rightarrow> [] | Some s \<Rightarrow> s)"

text \<open>\<^verbatim>\<open>image.mimeType.replace('image/', '').toUpperCase()\<close>\<close>

definition formatOf :: "ImagenModelResultI \<Rightarrow> string" where
  "formatOf img = toUpperCase (replaceFirst (mimeType img) ''image/'' [])"

text \<open>The chain of replacements that derives the identifier \<^verbatim>\<open>ID\<close> (lines 135-141, 223-229).\<close>

definition deriveID :: "string \<Rightarrow> string \<Rightarrow> string \<Rightarrow> string" where
  "deriveID name userID fmt =
     replaceFirst
       (replaceFirst
          (replaceFirst
             (replaceFirst
                (replaceFirst (replaceAll name ''/'' []) userID [])
                ''generated-images'' [])
             ''edited-images'' [])
          ''sample_'' [])
       (''.'' @ toLowerCase fmt) []"

text \<open>\<^verbatim>\<open>image.prompt && image.prompt != '' ? image.prompt : usedPrompt\<close>\<close>

definition promptOf :: "ImagenModelResultI \<Rightarrow> string \<Rightarrow> string" where
  "promptOf img usedPrompt =
     (case prompt img of
        None \<Rightarrow> usedPrompt
      | Some p \<Rightarrow> if p \<noteq> [] then p else usedPrompt)"

definition accessError :: string where
  "accessError = ''Error while getting secured access to content.''"

text \<open>
  The \<^verbatim>\<open>try\<close> block that asks for the signed URL (lines 147-174 and 242-268): a
  rejected call and an \<^verbatim>\<open>{error}\<close> answer both end in the \<^verbatim>\<open>catch\<close>, which returns
  the error record.
\<close>

definition signedOrError ::
  "JsError + SignedURLResult \<Rightarrow> (string \<Rightarrow> ImageI) \<Rightarrow> DisplayImage" where
  "signedOrError answer mk =
     (case answer of
        Inl e \<Rightarrow> ErrorRecord accessError
      | Inr (SignedURLError err) \<Rightarrow> ErrorRecord accessError
      | Inr (SignedURL signedURL) \<Rightarrow> Success (mk signedURL))"

text \<open>
  The callback of \<^verbatim>\<open>imagesInGCS.map\<close> in \<^verbatim>\<open>buildImageListFromURI\<close> (lines 125-176)
  for the image at index \<open>i\<close>. \<open>Inl\<close>: the promise of this image rejects. The call of
  \<^verbatim>\<open>decomposeUri\<close> and the derivation of \<^verbatim>\<open>ID\<close> stand before the \<^verbatim>\<open>try\<close>;
  \<^verbatim>\<open>fileName.replaceAll\<close> throws when \<^verbatim>\<open>fileName\<close> is undefined.
\<close>

definition imageFromURI ::
  "Storage \<Rightarrow> string \<Rightarrow> int \<Rightarrow> int \<Rightarrow> string \<Rightarrow> string \<Rightarrow> string \<Rightarrow> string
     \<Rightarrow> nat \<Rightarrow> ImagenModelResultI \<Rightarrow> JsError + DisplayImage" where
  "imageFromURI st aspectRatio width height usedPrompt userID modelVersion mode i img =
     (case raiFilteredReason img of
        Some reason \<Rightarrow> Inr (WarningRecord reason)
      | None \<Rightarrow>
          (case decomposeUri st i (orEmpty (gcsUri img)) of
             Inl e \<Rightarrow> Inl e
           | Inr None \<Rightarrow> Inl (cannotRead ''replaceAll'')
           | Inr (Some fileName) \<Rightarrow>
               (let format = formatOf img;
                    ID = deriveID fileName userID format
                in Inr (signedOrError
                     (getSignedURL st i (orEmpty (gcsUri img)))
                     (\<lambda>signedURL.
                        \<lparr> imgSrc = signedURL,
                          imgGcsUri = gcsUri img,
                          imgFormat = format,
                          imgPrompt = promptOf img usedPrompt,
                          imgAltText = ''Generated image '' @ fileName,
                          imgKey = ID,
                          imgWidth = width,
                          imgHeight = height,
                          imgRatio = aspectRatio,
                          imgDate = formattedDate st i,
                          imgAuthor = userID,
                          imgModelVersion = modelVersion,
                          imgMode = mode \<rparr>)))))"

text \<open>
  \<^verbatim>\<open>Promise.all\<close>: the list of the values when every promise fulfils, a rejection as
  soon as one rejects. Which rejection wins when several promises reject depends on
  their timing; the one of the lowest index stands for it here.
\<close>

fun promiseAll :: "('e + 'a) list \<Rightarrow> 'e + 'a list" where
  "promiseAll [] = Inr []"
| "promiseAll (p # ps) =
     (case p of
        Inl e \<Rightarrow> Inl e
      | Inr v \<Rightarrow> (case promiseAll ps of Inl e \<Rightarrow> Inl e | Inr vs \<Rightarrow> Inr (v # vs)))"

text \<open>\<open>xs.map(f)\<close> with the index of each element at hand.\<close>

definition mapIndexed :: "(nat \<Rightarrow> 'a \<Rightarrow> 'b) \<Rightarrow> 'a list \<Rightarrow> 'b list" where
  "mapIndexed f xs = map (\<lambda>(i, x). f i x) (enumerate 0 xs)"

text \<open>
  \<^verbatim>\<open>buildImageListFromURI\<close> (lines 106-183). No callback returns \<^verbatim>\<open>null\<close>, so the
  final \<^verbatim>\<open>filter((image) => image !== null)\<close> keeps every element.
\<close>

definition buildImageListFromURI ::
  "Storage \<Rightarrow> ImagenModelResultI list \<Rightarrow> string \<Rightarrow> int \<Rightarrow> int \<Rightarrow> string \<Rightarrow> string
     \<Rightarrow> string \<Rightarrow> string \<Rightarrow> JsError + DisplayImage list" where
  "buildImageListFromURI st imagesInGCS aspectRatio width height usedPrompt userID modelVersion mode =
     promiseAll
       (mapIndexed (imageFromURI st aspectRatio width height usedPrompt userID modelVersion mode)
          imagesInGCS)"

text \<open>
  \<^verbatim>\<open>buildImageListFromBase64\<close> (lines 185-277). \<^verbatim>\<open>xs[k]\<close> of an array is
  \<^verbatim>\<open>undefined\<close> past its end, which \<^verbatim>\<open>+\<close> renders as "undefined".
\<close>

definition arrayAt :: "'a list \<Rightarrow> nat \<Rightarrow> 'a option" where
  "arrayAt xs k = (if k < length xs then Some (xs ! k) else None)"

definition bucketNameOf :: "string \<Rightarrow> string" where
  "bucketNameOf targetGcsURI = render (arrayAt (split (replaceFirst targetGcsURI ''gs://'' []) ''/'') 0)"

definition folderNameOf :: "string \<Rightarrow> real \<Rightarrow> string" where
  "folderNameOf targetGcsURI uniqueFolderId =
     render (arrayAt (split targetGcsURI (bucketNameOf targetGcsURI @ ''/'')) 1)
       @ ''/'' @ numberToString uniqueFolderId"

text \<open>
  The object name of one image (lines 216-221): \<^verbatim>\<open>index\<close> is the position of the
  first element of the batch whose \<^verbatim>\<open>bytesBase64Encoded\<close> equals this image's.
\<close>

definition sampleIndex :: "ImagenModelResultI list \<Rightarrow> ImagenModelResultI \<Rightarrow> int" where
  "sampleIndex imagesBase64 img =
     findIndex (\<lambda>obj. bytesBase64Encoded obj = bytesBase64Encoded img) imagesBase64"

definition sampleFileName :: "ImagenModelResultI list \<Rightarrow> ImagenModelResultI \<Rightarrow> string" where
  "sampleFileName imagesBase64 img = ''sample_'' @ toString (sampleIndex imagesBase64 img)"

definition fullOjectName ::
  "string \<Rightarrow> ImagenModelResultI list \<Rightarrow> ImagenModelResultI \<Rightarrow> string" where
  "fullOjectName folderName imagesBase64 img =
     folderName @ ''/'' @ sampleFileName imagesBase64 img @ ''.''
       @ toLowerCase (formatOf img)"

text \<open>
  The upload inside the \<^verbatim>\<open>try\<close> (lines 236-240): \<open>Inl\<close> when it rejects or answers
  without success (the callback of \<^verbatim>\<open>then\<close> throws), else the uploaded object's URI.
\<close>

definition uploadedUri :: "JsError + UploadResult \<Rightarrow> JsError + string" where
  "uploadedUri answer =
     (case answer of
        Inl e \<Rightarrow> Inl e
      | Inr result \<Rightarrow>
          if \<not> upSuccess result
          then Inl (Error (cleanResult
                 (case upError result of None \<Rightarrow> ''Could not upload image to GCS'' | Some e \<Rightarrow> e)))
          else Inr (orEmpty (upFileUrl result)))"

definition imageFromBase64 ::
  "Storage \<Rightarrow> string \<Rightarrow> string \<Rightarrow> ImagenModelResultI list \<Rightarrow> string \<Rightarrow> int \<Rightarrow> int
     \<Rightarrow> string \<Rightarrow> string \<Rightarrow> string \<Rightarrow> string \<Rightarrow> nat \<Rightarrow> ImagenModelResultI \<Rightarrow> DisplayImage" where
  "imageFromBase64 st bucketName folderName imagesBase64 aspectRatio width height usedPrompt userID
      modelVersion mode i img =
     (case raiFilteredReason img of
        Some reason \<Rightarrow> WarningRecord reason
      | None \<Rightarrow>
          (let format = formatOf img;
               fileName = sampleFileName imagesBase64 img;
               fullOjectName = fullOjectName folderName imagesBase64 img;
               ID = deriveID fullOjectName userID format
           in (case uploadedUri
                      (uploadBase64Image st i (orEmpty (bytesBase64Encoded img)) bucketName
                         fullOjectName) of
                 Inl e \<Rightarrow> ErrorRecord accessError
               | Inr imageGcsUri \<Rightarrow>
                   signedOrError (getSignedURL st i imageGcsUri)
                     (\<lambda>signedURL.
                        \<lparr> imgSrc = signedURL,
                          imgGcsUri = Some imageGcsUri,
                          imgFormat = format,
                          imgPrompt = promptOf img usedPrompt,
                          imgAltText = ''Generated image '' @ fileName,
                          imgKey = ID,
                          imgWidth = width,
                          imgHeight = height,
                          imgRatio = aspectRatio,
                          imgDate = formattedDate st i,
                          imgAuthor = userID,
                          imgModelVersion = modelVersion,
                          imgMode = mode \<rparr>))))"

definition buildImageListFromBase64 ::
  "Storage \<Rightarrow> ImagenModelResultI list \<Rightarrow> string \<Rightarrow> string \<Rightarrow> int \<Rightarrow> int \<Rightarrow> string
     \<Rightarrow> string \<Rightarrow> string \<Rightarrow> string \<Rightarrow> JsError + DisplayImage list" where
  "buildImageListFromBase64 st imagesBase64 targetGcsURI aspectRatio width height usedPrompt userID
      modelVersion mode =
     (let bucketName = bucketNameOf targetGcsURI;
          uniqueFolderId = generateUniqueFolderId (random st);
          folderName = folderNameOf targetGcsURI uniqueFolderId
      in promiseAll
           (mapIndexed
              (\<lambda>i img. Inr (imageFromBase64 st bucketName folderName imagesBase64 aspectRatio width
                  height usedPrompt userID modelVersion mode i img))
              imagesBase64))"

section \<open>Requests, responses and the remote endpoint\<close>

text \<open>
  A request body is a JavaScript object built by the source and read back by property.
  A number the source obtains with \<^verbatim>\<open>parseInt\<close> or \<^verbatim>\<open>parseFloat\<close> is kept as that
  call on its argument.
\<close>

datatype jsval =
    JUndefined
  | JBool bool
  | JNum int
  | JParseInt string
  | JParseFloat string
  | JStr string
  | JArr "jsval list"
  | JObj "(string \<times> jsval) list"

text \<open>
  \<^verbatim>\<open>v.k\<close> and \<^verbatim>\<open>v[n]\<close>: reading a property of \<^verbatim>\<open>undefined\<close> throws a
  \<^verbatim>\<open>TypeError\<close>; a property an object does not have is \<^verbatim>\<open>undefined\<close>.
\<close>

fun getProp :: "jsval \<Rightarrow> string \<Rightarrow> JsError + jsval" where
  "getProp JUndefined k = Inl (cannotRead k)"
| "getProp (JObj kvs) k = Inr (case map_of kvs k of None \<Rightarrow> JUndefined | Some v \<Rightarrow> v)"
| "getProp v k = Inr JUndefined"

fun getIndex :: "jsval \<Rightarrow> nat \<Rightarrow> JsError + jsval" where
  "getIndex JUndefined n = Inl (cannotRead (toString (int n)))"
| "getIndex (JArr xs) n = Inr (if n < length xs then xs ! n else JUndefined)"
| "getIndex v n = Inr JUndefined"

text \<open>\<^verbatim>\<open>delete v.k\<close> and \<^verbatim>\<open>v.k = x\<close> on an object.\<close>

fun deleteProp :: "jsval \<Rightarrow> string \<Rightarrow> jsval" where
  "deleteProp (JObj kvs) k = JObj (filter (\<lambda>kv. fst kv \<noteq> k) kvs)"
| "deleteProp v k = v"

fun setProp :: "jsval \<Rightarrow> string \<Rightarrow> jsval \<Rightarrow> jsval" where
  "setProp (JObj kvs) k x =
     (if k \<in> fst ` set kvs then JObj (map (\<lambda>kv. if fst kv = k then (k, x) else kv) kvs)
      else JObj (kvs @ [(k, x)]))"
| "setProp v k x = v"

definition jsOfOption :: "string option \<Rightarrow> jsval" where
  "jsOfOption v = (case v of None \<Rightarrow> JUndefined | Some s \<Rightarrow> JStr s)"

text \<open>A property the source passes on as a string; the properties read so hold strings.\<close>

fun stringOf :: "jsval \<Rightarrow> string" where
  "stringOf (JStr s) = s"
| "stringOf v = ''undefined''"

definition bindE :: "'e + 'a \<Rightarrow> ('a \<Rightarrow> 'e + 'b) \<Rightarrow> 'e + 'b" where
  "bindE m f = (case m of Inl e \<Rightarrow> Inl e | Inr v \<Rightarrow> f v)"

text \<open>\<^verbatim>\<open>xs.find(p)\<close> with a callback that may throw.\<close>

fun findE :: "('a \<Rightarrow> 'e + bool) \<Rightarrow> 'a list \<Rightarrow> 'e + 'a option" where
  "findE p [] = Inr None"
| "findE p (x # xs) =
     (case p x of Inl e \<Rightarrow> Inl e | Inr b \<Rightarrow> if b then Inr (Some x) else findE p xs)"

text \<open>
  The data of a response: \<^verbatim>\<open>res.data.candidates\<close> as it came, and
  \<^verbatim>\<open>res.data.predictions\<close>, which the source reads as a list of model results.
\<close>

record ResponseData =
  candidates :: jsval
  predictions :: "ImagenModelResultI list option"

text \<open>
  A promise settles after some milliseconds, fulfilled or rejected, or never. An
  operation that awaits a promise which never settles does not return: its result is
  \<open>None\<close>.
\<close>

datatype 'a Settlement = Never | After nat "JsError + 'a"

record DownloadResult =
  dlData :: "string option"
  dlError :: "string option"

text \<open>
  The world of the three operations: the storage collaborators, the outcome of
  \<^verbatim>\<open>auth.getClient()\<close> (\<open>Some e\<close>: it rejects with \<open>e\<close>), the answer of
  \<^verbatim>\<open>client.request(opts)\<close>, \<^verbatim>\<open>downloadMediaFromGcs\<close>, and the two variables of
  \<^verbatim>\<open>process.env\<close>.
\<close>

record World =
  storage :: Storage
  getClient :: "JsError option"
  request :: "jsval \<Rightarrow> ResponseData Settlement"
  downloadMediaFromGcs :: "string \<Rightarrow> JsError + DownloadResult"
  envLocation :: "string option"
  envProjectId :: "string option"

text \<open>
  Modelled from the spec: \<^verbatim>\<open>appContextDataI\<close> is declared in
  \<^verbatim>\<open>../../context/app-context\<close>, outside this file; the operations read its
  \<^verbatim>\<open>gcsURI\<close> and \<^verbatim>\<open>userID\<close>. \<open>None\<close> for the context is \<^verbatim>\<open>null\<close> or
  \<^verbatim>\<open>undefined\<close>: both throw the same error.
\<close>

record appContextDataI =
  ctxGcsURI :: "string option"
  ctxUserID :: "string option"

text \<open>What an operation returns: a list of display records, \<^verbatim>\<open>{error: msg}\<close>,
  \<^verbatim>\<open>{error: undefined}\<close>, or \<^verbatim>\<open>{newGcsUri, mimeType}\<close>.\<close>

datatype Reply =
    Images "DisplayImage list"
  | ErrorReply string
  | ErrorReplyUndefined
  | Upscaled "string option" string

definition noAppContext :: JsError where
  "noAppContext = Error ''No provided app context''"

definition authError :: string where
  "authError = ''Unable to authenticate your account to access images''"

definition apostrophe :: string where
  "apostrophe = [CHR 0x27]"

definition phrasePeopleFace :: string where
  "phrasePeopleFace = ''safety settings for peopleface generation''"

definition phraseAllFiltered :: string where
  "phraseAllFiltered =
     ''All images were filtered out because they violated Vertex AI'' @ apostrophe
       @ ''s usage guidelines''"

definition apiUrl :: "string option \<Rightarrow> string option \<Rightarrow> string \<Rightarrow> string" where
  "apiUrl location projectId modelAndVerb =
     ''https://'' @ render location @ ''-aiplatform.googleapis.com/v1/projects/''
       @ render projectId @ ''/locations/'' @ render location
       @ ''/publishers/google/models/'' @ modelAndVerb"

section \<open>generateImage\<close>

text \<open>The request body of lines 333-353 and \<^verbatim>\<open>opts\<close> of lines 355-359.\<close>

definition generateReqData :: "string \<Rightarrow> (string \<Rightarrow> string option) \<Rightarrow> jsval" where
  "generateReqData fullPrompt formData =
     JObj
       [(''contents'',
           JArr [JObj [(''role'', JStr ''user''),
                       (''parts'', JArr [JObj [(''text'', JStr fullPrompt)]])]]),
        (''generationConfig'',
           JObj ([(''imageConfig'', JObj [(''aspectRatio'', jsOfOption (formData ''aspectRatio''))])]
                 @ (case formData ''seedNumber'' of
                      None \<Rightarrow> []
                    | Some seedNumber \<Rightarrow>
                        if seedNumber \<noteq> [] then [(''seed'', JParseInt seedNumber)] else [])))]"

definition requestOpts :: "string \<Rightarrow> jsval \<Rightarrow> jsval" where
  "requestOpts url reqData = JObj [(''url'', JStr url), (''method'', JStr ''POST''), (''data'', reqData)]"

text \<open>\<^verbatim>\<open>opts.data.parameters.aspectRatio\<close> and \<^verbatim>\<open>opts.data.instances[0].prompt\<close>.\<close>

definition optsAspectRatio :: "jsval \<Rightarrow> JsError + jsval" where
  "optsAspectRatio opts =
     bindE (getProp opts ''data'') (\<lambda>d.
     bindE (getProp d ''parameters'') (\<lambda>ps. getProp ps ''aspectRatio''))"

definition optsPrompt :: "jsval \<Rightarrow> JsError + jsval" where
  "optsPrompt opts =
     bindE (getProp opts ''data'') (\<lambda>d.
     bindE (getProp d ''instances'') (\<lambda>is.
     bindE (getIndex is 0) (\<lambda>i0. getProp i0 ''prompt'')))"

text \<open>
  The choice of the normalizer, shared by lines 371-408 and 570-597: the arguments are
  evaluated in the order of the object literal, then the normalizer runs. \<open>modeBase64\<close> and
  \<open>modeURI\<close> are the two \<^verbatim>\<open>mode\<close> tags of the call.
\<close>

definition isResultBase64Images :: "ImagenModelResultI list \<Rightarrow> bool" where
  "isResultBase64Images resultImages = list_all (\<lambda>img. bytesBase64Encoded img \<noteq> None) resultImages"

definition normalizeResults ::
  "Storage \<Rightarrow> ImagenModelResultI list \<Rightarrow> string \<Rightarrow> JsError + jsval \<Rightarrow> int \<Rightarrow> int
     \<Rightarrow> JsError + jsval \<Rightarrow> string \<Rightarrow> string \<Rightarrow> string \<Rightarrow> string
     \<Rightarrow> JsError + DisplayImage list" where
  "normalizeResults st resultImages targetGcsURI aspectRatio width height usedPrompt userID
      modelVersion modeBase64 modeURI =
     bindE aspectRatio (\<lambda>ar.
     bindE usedPrompt (\<lambda>up.
       if isResultBase64Images resultImages
       then buildImageListFromBase64 st resultImages targetGcsURI (stringOf ar) width height
              (stringOf up) userID modelVersion modeBase64
       else buildImageListFromURI st resultImages (stringOf ar) width height (stringOf up) userID
              modelVersion modeURI))"

text \<open>
  Step 4 of \<^verbatim>\<open>generateImage\<close>, the body of the \<^verbatim>\<open>try\<close> (lines 363-408) once the
  request has settled with \<open>answer\<close>. \<^verbatim>\<open>RatioToPixel\<close> is a table declared outside this
  file: its rows are (ratio, width, height).
\<close>

definition generateTry ::
  "Storage \<Rightarrow> (string \<times> int \<times> int) list \<Rightarrow> jsval \<Rightarrow> JsError + ResponseData \<Rightarrow> string
     \<Rightarrow> string \<Rightarrow> string \<Rightarrow> JsError + DisplayImage list" where
  "generateTry st RatioToPixel opts answer generationGcsURI userID modelVersion =
     bindE answer (\<lambda>res.
     bindE (getIndex (candidates res) 0) (\<lambda>candidate.
     bindE (getProp candidate ''content'') (\<lambda>content.
       if content = JUndefined then Inl (Error ''There were an issue, no images were generated'')
       else
         bindE (findE (\<lambda>item. bindE (optsAspectRatio opts) (\<lambda>ar. Inr (JStr (fst item) = ar)))
                  RatioToPixel) (\<lambda>usedRatio.
           (case predictions res of
              None \<Rightarrow> Inl (cannotRead ''every'')
            | Some resultImages \<Rightarrow>
                normalizeResults st resultImages generationGcsURI (optsAspectRatio opts)
                  (case usedRatio of None \<Rightarrow> 0 | Some item \<Rightarrow> fst (snd item))
                  (case usedRatio of None \<Rightarrow> 0 | Some item \<Rightarrow> snd (snd item))
                  (optsPrompt opts) userID modelVersion ''Generated'' ''Generated'')))))"

text \<open>\<^verbatim>\<open>errorString.replace(/^Error: /i, '')\<close>\<close>

definition stripErrorPrefix :: "string \<Rightarrow> string" where
  "stripErrorPrefix s = (if toLowerCase (take 7 s) = ''error: '' then drop 7 s else s)"

text \<open>The \<^verbatim>\<open>catch\<close> of step 4 (lines 409-430).\<close>

definition generateCatch :: "JsError \<Rightarrow> Reply" where
  "generateCatch err =
     (let errorString = errorToString err
      in if includes_str errorString phrasePeopleFace
            \<or> includes_str errorString phraseAllFiltered
            \<or> includes_str errorString ''Person Generation''
         then ErrorReply (stripErrorPrefix errorString)
         else
           (let myErrorMsg =
                  (case errorErrors err of
                     Some (Some m # rest) \<Rightarrow>
                       if m \<noteq> []
                       then replaceFirst m ''Image generation failed with the following error: '' []
                       else []
                   | _ \<Rightarrow> [])
            in ErrorReply (if myErrorMsg \<noteq> [] then myErrorMsg else ''An unexpected error occurred.'')))"

text \<open>
  \<^verbatim>\<open>opts\<close> of \<^verbatim>\<open>generateImage\<close> (lines 298-359): the region is forced for one
  family of models, else read from the environment; the prompt is built from the form.
\<close>

definition generateOpts ::
  "World \<Rightarrow> string list \<Rightarrow> (string \<Rightarrow> string option) \<Rightarrow> string \<Rightarrow> jsval" where
  "generateOpts world fullPromptFields formData modelVersion =
     (let location =
            (if includes_str modelVersion ''gemini-2.5-flash-image'' then Some ''us-central1''
             else envLocation world);
          geminiAPIurl = apiUrl location (envProjectId world) (modelVersion @ '':generateContent'');
          fullPrompt = generatePrompt fullPromptFields formData
      in requestOpts geminiAPIurl (generateReqData fullPrompt formData))"

text \<open>
  \<^verbatim>\<open>generateImage\<close> (lines 279-431). The form is read by key. \<^verbatim>\<open>generatePrompt\<close>
  returns a string, so the \<^verbatim>\<open>try\<close> around it never reaches its \<^verbatim>\<open>catch\<close>.
\<close>

definition generateImage ::
  "World \<Rightarrow> string list \<Rightarrow> (string \<times> int \<times> int) list \<Rightarrow> (string \<Rightarrow> string option) \<Rightarrow> bool
     \<Rightarrow> appContextDataI option \<Rightarrow> (JsError + Reply) option" where
  "generateImage world fullPromptFields RatioToPixel formData isGeminiRewrite appContext =
     (case getClient world of
        Some e \<Rightarrow> Some (Inr (ErrorReply authError))
      | None \<Rightarrow>
          (case formData ''modelVersion'' of
             None \<Rightarrow> Some (Inl (cannotRead ''includes''))
           | Some modelVersion \<Rightarrow>
               (case appContext of
                  None \<Rightarrow> Some (Inl noAppContext)
                | Some ctx \<Rightarrow>
                    (case (ctxGcsURI ctx, ctxUserID ctx) of
                       (Some gcsURI, Some userID) \<Rightarrow>
                         (let generationGcsURI = gcsURI @ ''/'' @ userID @ ''/generated-images'';
                              opts = generateOpts world fullPromptFields formData modelVersion
                          in (case request world opts of
                                Never \<Rightarrow> None
                              | After t answer \<Rightarrow>
                                  (case generateTry (storage world) RatioToPixel opts answer
                                          generationGcsURI userID modelVersion of
                                     Inr enhancedImageList \<Rightarrow> Some (Inr (Images enhancedImageList))
                                   | Inl err \<Rightarrow> Some (Inr (generateCatch err)))))
                     | _ \<Rightarrow> Some (Inl noAppContext)))))"

section \<open>editImage\<close>

text \<open>
  Modelled from the spec: \<^verbatim>\<open>EditImageFormI\<close> is declared in \<^verbatim>\<open>../edit-utils\<close>,
  outside this file; these are the fields \<^verbatim>\<open>editImage\<close> reads. Field \<open>formPrompt\<close> is
  the property \<^verbatim>\<open>prompt\<close>, and so on.
\<close>

record EditImageFormI =
  formModelVersion :: string
  formInputImage :: string
  formInputMask :: string
  formEditMode :: string
  formPrompt :: string
  formMaskDilation :: string
  formNegativePrompt :: string
  formBaseSteps :: string
  formSampleCount :: string
  formOutputOptions :: string
  formPersonGeneration :: string
  formRatio :: string
  formWidth :: int
  formHeight :: int

text \<open>\<^verbatim>\<open>s.startsWith('data:') ? s.split(',')[1] : s\<close>\<close>

definition stripDataUrl :: "string \<Rightarrow> jsval" where
  "stripDataUrl s =
     (if startsWith s ''data:'' then jsOfOption (arrayAt (split s '','') 1) else JStr s)"

text \<open>The mask reference of lines 489-499, and what lines 519-525 make of it.\<close>

definition maskReference :: "jsval \<Rightarrow> string \<Rightarrow> jsval" where
  "maskReference refInputMask maskDilation =
     JObj [(''referenceType'', JStr ''REFERENCE_TYPE_MASK''),
           (''referenceId'', JNum 2),
           (''referenceImage'', JObj [(''bytesBase64Encoded'', refInputMask)]),
           (''maskImageConfig'',
              JObj [(''maskMode'', JStr ''MASK_MODE_USER_PROVIDED''),
                    (''dilation'', JParseFloat maskDilation)])]"

definition bgSwap :: "jsval \<Rightarrow> jsval" where
  "bgSwap referenceImage =
     (let r1 = deleteProp referenceImage ''referenceImage'';
          config = (case getProp r1 ''maskImageConfig'' of Inl e \<Rightarrow> JUndefined | Inr c \<Rightarrow> c);
          config1 = setProp config ''maskMode'' (JStr ''MASK_MODE_BACKGROUND'');
          config2 = deleteProp config1 ''dilation''
      in setProp r1 ''maskImageConfig'' config2)"

definition editReqData :: "EditImageFormI \<Rightarrow> string \<Rightarrow> jsval" where
  "editReqData formData editGcsURI =
     (let refInputImage = stripDataUrl (formInputImage formData);
          refInputMask = stripDataUrl (formInputMask formData);
          editMode = formEditMode formData;
          mask = maskReference refInputMask (formMaskDilation formData)
      in JObj
           [(''instances'',
               JArr [JObj [(''prompt'', JStr (formPrompt formData)),
                           (''referenceImages'',
                              JArr [JObj [(''referenceType'', JStr ''REFERENCE_TYPE_RAW''),
                                          (''referenceId'', JNum 1),
                                          (''referenceImage'',
                                             JObj [(''bytesBase64Encoded'', refInputImage)])],
                                    (if editMode = ''EDIT_MODE_BGSWAP'' then bgSwap mask else mask)])]]),
            (''parameters'',
               JObj [(''negativePrompt'', JStr (formNegativePrompt formData)),
                     (''editConfig'', JObj [(''baseSteps'', JParseInt (formBaseSteps formData))]),
                     (''editMode'', JStr editMode),
                     (''sampleCount'', JParseInt (formSampleCount formData)),
                     (''outputOptions'', JObj [(''mimeType'', JStr (formOutputOptions formData))]),
                     (''includeRaiReason'', JBool True),
                     (''personGeneration'', JStr (formPersonGeneration formData)),
                     (''storageUri'', JStr editGcsURI)])])"

text \<open>
  Step 3 of \<^verbatim>\<open>editImage\<close>, the body of the first \<^verbatim>\<open>try\<close> (lines 536-544) once the
  request has settled with \<open>answer\<close>. \<^verbatim>\<open>'raiFilteredReason' in undefined\<close> throws a
  \<^verbatim>\<open>TypeError\<close>.
\<close>

definition inUndefined :: JsError where
  "inUndefined =
     TypeError (''Cannot use '' @ apostrophe @ ''in'' @ apostrophe @ '' operator to search for ''
       @ apostrophe @ ''raiFilteredReason'' @ apostrophe @ '' in undefined'')"

definition editTry :: "JsError + ResponseData \<Rightarrow> JsError + ImagenModelResultI list" where
  "editTry answer =
     bindE answer (\<lambda>res.
       (case predictions res of
          None \<Rightarrow> Inl (Error ''There were an issue, no images were generated'')
        | Some resultImages \<Rightarrow>
            (case arrayAt resultImages 0 of
               None \<Rightarrow> Inl inUndefined
             | Some first \<Rightarrow>
                 (case raiFilteredReason first of
                    Some reason \<Rightarrow> Inl (Error (cleanResult reason))
                  | None \<Rightarrow> Inr resultImages))))"

text \<open>
  The \<^verbatim>\<open>catch\<close> of step 3 (lines 545-564). \<^verbatim>\<open>myError.errors[0].message\<close> is read
  without a guard: it throws when the error has no list \<^verbatim>\<open>errors\<close> or an empty one, and
  the exception leaves \<^verbatim>\<open>editImage\<close>.
\<close>

definition editCatch :: "JsError \<Rightarrow> JsError + Reply" where
  "editCatch err =
     (let errorString = errorToString err
      in if includes_str errorString phrasePeopleFace \<or> includes_str errorString phraseAllFiltered
         then Inr (ErrorReply (replaceFirst errorString ''Error: '' []))
         else
           (case errorErrors err of
              None \<Rightarrow> Inl (cannotRead ''0'')
            | Some [] \<Rightarrow> Inl (cannotRead ''message'')
            | Some (None # rest) \<Rightarrow> Inr ErrorReplyUndefined
            | Some (Some myErrorMsg # rest) \<Rightarrow> Inr (ErrorReply myErrorMsg)))"

text \<open>\<^verbatim>\<open>opts\<close> of \<^verbatim>\<open>editImage\<close> (lines 448-531).\<close>

definition editOpts :: "World \<Rightarrow> EditImageFormI \<Rightarrow> string \<Rightarrow> jsval" where
  "editOpts world formData editGcsURI =
     requestOpts
       (apiUrl (envLocation world) (envProjectId world) (formModelVersion formData @ '':predict''))
       (editReqData formData editGcsURI)"

text \<open>\<^verbatim>\<open>editImage\<close> (lines 433-604).\<close>

definition editImage ::
  "World \<Rightarrow> EditImageFormI \<Rightarrow> appContextDataI option \<Rightarrow> (JsError + Reply) option" where
  "editImage world formData appContext =
     (case getClient world of
        Some e \<Rightarrow> Some (Inr (ErrorReply authError))
      | None \<Rightarrow>
          (case appContext of
             None \<Rightarrow> Some (Inl noAppContext)
           | Some ctx \<Rightarrow>
               (case (ctxGcsURI ctx, ctxUserID ctx) of
                  (Some gcsURI, Some userID) \<Rightarrow>
                    (let modelVersion = formModelVersion formData;
                         editGcsURI = gcsURI @ ''/'' @ userID @ ''/edited-images'';
                         opts = editOpts world formData editGcsURI
                     in (case request world opts of
                           Never \<Rightarrow> None
                         | After t answer \<Rightarrow>
                             (case editTry answer of
                                Inl err \<Rightarrow> Some (editCatch err)
                              | Inr resultImages \<Rightarrow>
                                  (case normalizeResults (storage world) resultImages editGcsURI
                                          (Inr (JStr (formRatio formData))) (formWidth formData)
                                          (formHeight formData) (optsPrompt opts) userID modelVersion
                                          ''Generated'' ''Edited'' of
                                     Inr enhancedImageList \<Rightarrow> Some (Inr (Images enhancedImageList))
                                   | Inl err \<Rightarrow> Some (Inr (ErrorReply ''Issue while editing image.''))))))
                | _ \<Rightarrow> Some (Inl noAppContext))))"

section \<open>upscaleImage\<close>

datatype UpscaleSource = SourceUri string | SourceBase64 string

text \<open>
  Step 2 (lines 629-645): the source image. A download that rejects, or that answers with
  a non-empty \<^verbatim>\<open>error\<close>, is thrown again as \<^verbatim>\<open>Error(error)\<close>, whose message is the
  string of what was caught.
\<close>

definition sourceImage :: "World \<Rightarrow> UpscaleSource \<Rightarrow> JsError + string option" where
  "sourceImage world source =
     (case source of
        SourceBase64 base64 \<Rightarrow> Inr (Some base64)
      | SourceUri uri \<Rightarrow>
          (case downloadMediaFromGcs world uri of
             Inl e \<Rightarrow> Inl (Error (errorToString e))
           | Inr res \<Rightarrow>
               (case dlError res of
                  None \<Rightarrow> Inr (dlData res)
                | Some msg \<Rightarrow>
                    if msg \<noteq> []
                    then Inl (Error (errorToString (Error (replaceAll msg ''Error: '' []))))
                    else Inr (dlData res))))"

definition upscaleReqData :: "string option \<Rightarrow> string \<Rightarrow> string \<Rightarrow> jsval" where
  "upscaleReqData base64Image upscaleFactor targetGCSuri =
     (let base64ImageEncoded =
            (case base64Image of
               None \<Rightarrow> JUndefined
             | Some b \<Rightarrow> if b \<noteq> [] then stripDataUrl b else JStr b)
      in JObj
           [(''instances'',
               JArr [JObj [(''prompt'', JStr []),
                           (''image'', JObj [(''bytesBase64Encoded'', base64ImageEncoded)])]]),
            (''parameters'',
               JObj [(''sampleCount'', JNum 1),
                     (''mode'', JStr ''upscale''),
                     (''upscaleConfig'', JObj [(''upscaleFactor'', JStr upscaleFactor)]),
                     (''storageUri'', JStr targetGCSuri)])])"

text \<open>
  \<^verbatim>\<open>Promise.race\<close> of the request with the timer of lines 688-693: the request wins
  when it settles before \<open>timeout\<close> milliseconds have passed, otherwise the race rejects
  with the timer's error.
\<close>

definition timeout :: nat where
  "timeout = 60000"

definition raceWithTimeout :: "'a Settlement \<Rightarrow> JsError + 'a" where
  "raceWithTimeout p =
     (case p of
        Never \<Rightarrow> Inl (Error ''Upscaling timed out'')
      | After t answer \<Rightarrow> if t < timeout then answer else Inl (Error ''Upscaling timed out''))"

text \<open>Step 4, the body of the \<^verbatim>\<open>try\<close> after the race (lines 694-698).\<close>

definition upscaleTry :: "JsError + ResponseData \<Rightarrow> JsError + Reply" where
  "upscaleTry raced =
     bindE raced (\<lambda>res.
       (case predictions res of
          None \<Rightarrow> Inl (Error ''There were an issue, images could not be upscaled'')
        | Some ps \<Rightarrow>
            (case arrayAt ps 0 of
               None \<Rightarrow> Inl (cannotRead ''gcsUri'')
             | Some first \<Rightarrow> Inr (Upscaled (gcsUri first) (mimeType first)))))"

definition tooLarge :: string where
  "tooLarge =
     ''Image size limit exceeded. The resulting image is too large. Please try a smaller resolution or a different image.''"

definition upscaleError :: string where
  "upscaleError = ''Error while upscaling images.''"

text \<open>The \<^verbatim>\<open>catch\<close> of step 4 (lines 699-710).\<close>

definition upscaleCatch :: "JsError \<Rightarrow> Reply" where
  "upscaleCatch err =
     (if includes_str (errorMessage err) ''Response size too large.'' then ErrorReply tooLarge
      else ErrorReply upscaleError)"

text \<open>\<^verbatim>\<open>opts\<close> of lines 680-684, with the URL of line 626.\<close>

definition upscaleOpts :: "World \<Rightarrow> string option \<Rightarrow> string \<Rightarrow> string \<Rightarrow> jsval" where
  "upscaleOpts world base64Image upscaleFactor targetGCSuri =
     requestOpts
       (apiUrl (envLocation world) (envProjectId world) ''imagegeneration@002:predict'')
       (upscaleReqData base64Image upscaleFactor targetGCSuri)"

text \<open>\<^verbatim>\<open>upscaleImage\<close> (lines 606-711).\<close>

definition upscaleImage ::
  "World \<Rightarrow> UpscaleSource \<Rightarrow> string \<Rightarrow> appContextDataI option \<Rightarrow> (JsError + Reply) option" where
  "upscaleImage world source upscaleFactor appContext =
     (case getClient world of
        Some e \<Rightarrow> Some (Inr (ErrorReply authError))
      | None \<Rightarrow>
          (case sourceImage world source of
             Inl e \<Rightarrow> Some (Inl e)
           | Inr base64Image \<Rightarrow>
               (case appContext of
                  None \<Rightarrow> Some (Inl noAppContext)
                | Some ctx \<Rightarrow>
                    (case (ctxGcsURI ctx, ctxUserID ctx) of
                       (Some gcsURI, Some userID) \<Rightarrow>
                         (let targetGCSuri = gcsURI @ ''/'' @ userID @ ''/upscaled-images'';
                              opts = upscaleOpts world base64Image upscaleFactor targetGCSuri
                          in (case upscaleTry (raceWithTimeout (request world opts)) of
                                Inr reply \<Rightarrow> Some (Inr reply)
                              | Inl err \<Rightarrow> Some (Inr (upscaleCatch err))))
                     | _ \<Rightarrow> Some (Inl noAppContext)))))"

section \<open>Notions used to state the properties\<close>

text \<open>\<^verbatim>\<open>decomposeUri\<close> answers the call made for image \<open>i\<close> with a file name.\<close>

definition decomposes :: "Storage \<Rightarrow> nat \<Rightarrow> ImagenModelResultI \<Rightarrow> bool" where
  "decomposes st i img =
     (case decomposeUri st i (orEmpty (gcsUri img)) of
        Inl e \<Rightarrow> False
      | Inr None \<Rightarrow> False
      | Inr (Some fileName) \<Rightarrow> True)"

text \<open>
  A display record fits a model result: the warning with its reason for a filtered
  result; otherwise a success record of the result's format and prompt, or the error
  record of the normalizers.
\<close>

definition fits :: "string \<Rightarrow> ImagenModelResultI \<Rightarrow> DisplayImage \<Rightarrow> bool" where
  "fits usedPrompt img r =
     (case raiFilteredReason img of
        Some reason \<Rightarrow> r = WarningRecord reason
      | None \<Rightarrow>
          (case r of
             Success x \<Rightarrow> imgFormat x = formatOf img \<and> imgPrompt x = promptOf img usedPrompt
           | WarningRecord w \<Rightarrow> False
           | ErrorRecord e \<Rightarrow> e = accessError))"

text \<open>The retrieval of a signed URL fails: the call rejects or answers \<^verbatim>\<open>{error}\<close>.\<close>

definition signedURLFails :: "JsError + SignedURLResult \<Rightarrow> bool" where
  "signedURLFails answer =
     (case answer of
        Inl e \<Rightarrow> True
      | Inr (SignedURLError err) \<Rightarrow> True
      | Inr (SignedURL u) \<Rightarrow> False)"

text \<open>
  The upload fails: the call rejects, or its answer does not report success
  (\<^verbatim>\<open>success\<close> is false).
\<close>

definition uploadFails :: "JsError + UploadResult \<Rightarrow> bool" where
  "uploadFails answer =
     (case answer of
        Inl e \<Rightarrow> True
      | Inr result \<Rightarrow> \<not> upSuccess result)"

text \<open>
  The secured access to image \<open>i\<close> fails. In the URI variant the signed URL is asked for
  (the URI was decomposed) and its retrieval fails. In the base64 variant the upload of
  the image fails, or it answers with success and the retrieval of the signed URL of the
  object it names (\<^verbatim>\<open>fileUrl\<close>) fails. Both are read from the answers of the storage.
\<close>

definition accessFailsURI :: "Storage \<Rightarrow> nat \<Rightarrow> ImagenModelResultI \<Rightarrow> bool" where
  "accessFailsURI st i img =
     (decomposes st i img \<and> signedURLFails (getSignedURL st i (orEmpty (gcsUri img))))"

definition accessFailsBase64 ::
  "Storage \<Rightarrow> string \<Rightarrow> ImagenModelResultI list \<Rightarrow> nat \<Rightarrow> ImagenModelResultI \<Rightarrow> bool" where
  "accessFailsBase64 st targetGcsURI imagesBase64 i img =
     (let answer =
            uploadBase64Image st i (orEmpty (bytesBase64Encoded img)) (bucketNameOf targetGcsURI)
              (fullOjectName
                 (folderNameOf targetGcsURI (generateUniqueFolderId (random st)))
                 imagesBase64 img)
      in uploadFails answer
         \<or> (case answer of
               Inl e \<Rightarrow> False
             | Inr result \<Rightarrow> signedURLFails (getSignedURL st i (orEmpty (upFileUrl result)))))"

text \<open>
  Two storages that differ at most in what \<^verbatim>\<open>getSignedURL\<close> and
  \<^verbatim>\<open>uploadBase64Image\<close> answer to the calls made for image \<open>i\<close>.
\<close>

definition sameButAccessAt :: "nat \<Rightarrow> Storage \<Rightarrow> Storage \<Rightarrow> bool" where
  "sameButAccessAt i st st' =
     (decomposeUri st' = decomposeUri st \<and> random st' = random st
      \<and> formattedDate st' = formattedDate st
      \<and> (\<forall>k. k \<noteq> i \<longrightarrow>
            getSignedURL st' k = getSignedURL st k
            \<and> uploadBase64Image st' k = uploadBase64Image st k))"

text \<open>A promise has settled once \<open>ms\<close> milliseconds have passed.\<close>

definition settlesWithin :: "nat \<Rightarrow> 'a Settlement \<Rightarrow> bool" where
  "settlesWithin ms p = (case p of Never \<Rightarrow> False | After t answer \<Rightarrow> t \<le> ms)"

text \<open>
  \<^verbatim>\<open>upscaleImage\<close> reaches its step 4 with the image \<open>base64\<close> and the target
  \<open>targetGCSuri\<close>: the client was obtained, the source image is at hand, and the context
  names a bucket and a user.
\<close>

definition reachesUpscale ::
  "World \<Rightarrow> UpscaleSource \<Rightarrow> appContextDataI option \<Rightarrow> string option \<Rightarrow> string \<Rightarrow> bool" where
  "reachesUpscale world source appContext base64 targetGCSuri =
     (getClient world = None \<and> sourceImage world source = Inr base64
      \<and> (case appContext of
            None \<Rightarrow> False
          | Some ctx \<Rightarrow>
              (case (ctxGcsURI ctx, ctxUserID ctx) of
                 (Some gcsURI, Some userID) \<Rightarrow>
                   targetGCSuri = gcsURI @ ''/'' @ userID @ ''/upscaled-images''
               | _ \<Rightarrow> False)))"

section \<open>Sample inputs\<close>

text \<open>
  A storage in which every call succeeds, a context, and model results of the three
  shapes; the properties below are tried on them.
\<close>

definition sampleStorage :: Storage where
  "sampleStorage =
     \<lparr> decomposeUri = (\<lambda>i uri. Inr (Some (replaceFirst uri ''gs://bucket/'' []))),
       getSignedURL = (\<lambda>i uri. Inr (SignedURL (''https://signed/'' @ uri))),
       uploadBase64Image =
         (\<lambda>i bytes bucketName objectName.
            Inr \<lparr> upSuccess = True,
                  upFileUrl = Some (''gs://'' @ bucketName @ ''/'' @ objectName),
                  upError = None \<rparr>),
       random = (\<lambda>k. 0),
       formattedDate = (\<lambda>i. ''November 2, 2026'') \<rparr>"

definition filteredResult :: ImagenModelResultI where
  "filteredResult =
     \<lparr> gcsUri = None, bytesBase64Encoded = None, mimeType = [], prompt = None,
       raiFilteredReason = Some ''Support codes: 56562880'' \<rparr>"

definition uriResult :: "string \<Rightarrow> ImagenModelResultI" where
  "uriResult name =
     \<lparr> gcsUri = Some (''gs://bucket/u1/generated-images/'' @ name), bytesBase64Encoded = None,
       mimeType = ''image/png'', prompt = None, raiFilteredReason = None \<rparr>"

definition base64Result :: "string \<Rightarrow> string option \<Rightarrow> ImagenModelResultI" where
  "base64Result bytes p =
     \<lparr> gcsUri = None, bytesBase64Encoded = Some bytes, mimeType = ''image/png'', prompt = p,
       raiFilteredReason = None \<rparr>"

definition sampleContext :: "appContextDataI option" where
  "sampleContext = Some \<lparr> ctxGcsURI = Some ''gs://bucket'', ctxUserID = Some ''u1'' \<rparr>"

definition sampleWorld :: "ResponseData Settlement \<Rightarrow> World" where
  "sampleWorld answer =
     \<lparr> storage = sampleStorage,
       getClient = None,
       request = (\<lambda>opts. answer),
       downloadMediaFromGcs = (\<lambda>uri. Inr \<lparr> dlData = Some ''AAAA'', dlError = None \<rparr>),
       envLocation = Some ''europe-west1'',
       envProjectId = Some ''demo'' \<rparr>"

definition sampleGenerateForm :: "string \<Rightarrow> string option" where
  "sampleGenerateForm =
     map_of
       [(''modelVersion'', ''gemini-2.5-flash-image''),
        (''prompt'', ''a cat''),
        (''style'', ''photo''),
        (''secondary_style'', ''studio''),
        (''light'', []),
        (''use_case'', []),
        (''aspectRatio'', ''1:1''),
        (''seedNumber'', [])]"

definition sampleRatioToPixel :: "(string \<times> int \<times> int) list" where
  "sampleRatioToPixel = [(''1:1'', 1024, 1024), (''16:9'', 1408, 768)]"

definition sampleEditForm :: EditImageFormI where
  "sampleEditForm =
     \<lparr> formModelVersion = ''imagen-3.0-capability-001'',
       formInputImage = ''data:image/png;base64,AAAA'',
       formInputMask = ''data:image/png;base64,BBBB'',
       formEditMode = ''EDIT_MODE_INPAINT_INSERTION'',
       formPrompt = ''a hat'',
       formMaskDilation = ''0.01'',
       formNegativePrompt = [],
       formBaseSteps = ''35'',
       formSampleCount = ''2'',
       formOutputOptions = ''image/png'',
       formPersonGeneration = ''allow_adult'',
       formRatio = ''1:1'',
       formWidth = 1024,
       formHeight = 1024 \<rparr>"

text \<open>A response of the endpoint that carries content and the given predictions.\<close>

definition sampleResponse :: "ImagenModelResultI list \<Rightarrow> ResponseData" where
  "sampleResponse ps =
     \<lparr> candidates = JArr [JObj [(''content'', JObj [(''role'', JStr ''model'')])]],
       predictions = Some ps \<rparr>"

definition sampleBatch :: "ImagenModelResultI list" where
  "sampleBatch = [filteredResult, uriResult ''sample_1.png'', uriResult ''sample_2.png'']"

definition sampleBase64Batch :: "ImagenModelResultI list" where
  "sampleBase64Batch = [base64Result ''AAAA'' None, base64Result ''BBBB'' None]"

text \<open>The sample storage, except that the signed URL of image \<open>i\<close> is refused.\<close>

definition deniedAt :: "nat \<Rightarrow> Storage" where
  "deniedAt i =
     sampleStorage\<lparr>getSignedURL :=
       \<lambda>k uri. if k = i then Inr (SignedURLError ''denied'') else getSignedURL sampleStorage k uri\<rparr>"

text \<open>The sample storage, except that \<^verbatim>\<open>decomposeUri\<close> rejects for image \<open>i\<close>.\<close>

definition undecomposedAt :: "nat \<Rightarrow> Storage" where
  "undecomposedAt i =
     sampleStorage\<lparr>decomposeUri :=
       \<lambda>k uri. if k = i then Inl (Error ''Invalid URI'') else decomposeUri sampleStorage k uri\<rparr>"

text \<open>Two results with the same bytes and type, and different prompts.\<close>

definition sampleDuplicates :: "ImagenModelResultI list" where
  "sampleDuplicates = [base64Result ''AAAA'' None, base64Result ''AAAA'' (Some ''a dog'')]"

text \<open>The sample storage, except that the upload of image \<open>i\<close> rejects.\<close>

definition uploadRejectedAt :: "nat \<Rightarrow> Storage" where
  "uploadRejectedAt i =
     sampleStorage\<lparr>uploadBase64Image :=
       \<lambda>k bytes bucketName objectName.
         if k = i then Inl (Error ''socket hang up'')
         else uploadBase64Image sampleStorage k bytes bucketName objectName\<rparr>"

text \<open>The sample storage, except that the upload of image \<open>i\<close> answers without success.\<close>

definition uploadRefusedAt :: "nat \<Rightarrow> Storage" where
  "uploadRefusedAt i =
     sampleStorage\<lparr>uploadBase64Image :=
       \<lambda>k bytes bucketName objectName.
         if k = i then Inr \<lparr> upSuccess = False, upFileUrl = None, upError = Some ''Forbidden'' \<rparr>
         else uploadBase64Image sampleStorage k bytes bucketName objectName\<rparr>"

text \<open>
  The sample storage, except that the signed URL of image \<open>i\<close> is refused and
  \<^verbatim>\<open>decomposeUri\<close> rejects for image \<open>j\<close>.
\<close>

definition deniedUndecomposedAt :: "nat \<Rightarrow> nat \<Rightarrow> Storage" where
  "deniedUndecomposedAt i j =
     (deniedAt i)\<lparr>decomposeUri :=
       \<lambda>k uri. if k = j then Inl (Error ''Invalid URI'') else decomposeUri sampleStorage k uri\<rparr>"

text \<open>
  Two values of \<^verbatim>\<open>Math.random()\<close>: the double next to 0.7, which is below 0.7, and the
  largest double below 1.
\<close>

definition sevenTenths :: real where
  "sevenTenths = 6305039478318694 / 9007199254740992"

definition belowOne :: real where
  "belowOne = 9007199254740991 / 9007199254740992"
section \<open>Promise.all and the indexed map\<close>

lemma length_mapIndexed: "length (mapIndexed f xs) = length xs"
  by (simp add: mapIndexed_def)

lemma nth_mapIndexed: "i < length xs \<Longrightarrow> mapIndexed f xs ! i = f i (xs ! i)"
  by (simp add: mapIndexed_def nth_enumerate_eq)

lemma promiseAll_map_Inr: "promiseAll (map Inr vs) = Inr vs"
  by (induction vs) auto

lemma promiseAll_InrD: "promiseAll ps = Inr vs \<Longrightarrow> ps = map Inr vs"
  by (induction ps arbitrary: vs) (auto split: sum.splits)

lemma promiseAll_Inl_iff: "(\<exists>e. promiseAll ps = Inl e) \<longleftrightarrow> (\<exists>k<length ps. isl (ps ! k))"
proof -
  have "(\<exists>e. promiseAll ps = Inl e) \<longleftrightarrow> (\<exists>p\<in>set ps. isl p)"
    by (induction ps) (auto split: sum.splits)
  then show ?thesis by (simp add: in_set_conv_nth Bex_def) metis
qed

lemma promiseAll_Inr_nth:
  assumes "promiseAll ps = Inr vs"
  shows "length vs = length ps \<and> (\<forall>k<length ps. ps ! k = Inr (vs ! k))"
  using promiseAll_InrD [OF assms] by simp

lemma promiseAll_cases:
  "(\<exists>e. promiseAll ps = Inl e) \<or> (\<exists>vs. promiseAll ps = Inr vs)"
  by (cases "promiseAll ps") auto

section \<open>One image\<close>

lemma imageFromURI_filtered:
  "raiFilteredReason img = Some reason \<Longrightarrow>
     imageFromURI st ar w h up uid mv md i img = Inr (WarningRecord reason)"
  by (simp add: imageFromURI_def)

lemma imageFromURI_isl:
  "isl (imageFromURI st ar w h up uid mv md i img)
     \<longleftrightarrow> raiFilteredReason img = None \<and> \<not> decomposes st i img"
  by (auto simp: imageFromURI_def decomposes_def Let_def split: option.splits sum.splits)

lemma signedOrError_fails: "signedURLFails answer \<Longrightarrow> signedOrError answer mk = ErrorRecord accessError"
  by (auto simp: signedURLFails_def signedOrError_def split: sum.splits SignedURLResult.splits)

lemma signedOrError_fits:
  "raiFilteredReason img = None \<Longrightarrow> imgFormat (mk s0) = formatOf img
     \<Longrightarrow> (\<And>s. imgFormat (mk s) = formatOf img \<and> imgPrompt (mk s) = promptOf img up)
     \<Longrightarrow> fits up img (signedOrError answer mk)"
  by (auto simp: fits_def signedOrError_def split: sum.splits SignedURLResult.splits)

lemma imageFromURI_fits:
  "imageFromURI st ar w h up uid mv md i img = Inr r \<Longrightarrow> fits up img r"
  by (auto simp: imageFromURI_def fits_def signedOrError_def Let_def
      split: option.splits sum.splits SignedURLResult.splits)

lemma imageFromBase64_fits:
  "fits up img (imageFromBase64 st b f imgs ar w h up uid mv md i img)"
  by (auto simp: imageFromBase64_def fits_def signedOrError_def Let_def
      split: option.splits sum.splits SignedURLResult.splits)

lemma imageFromURI_access_fails:
  "raiFilteredReason img = None \<Longrightarrow> accessFailsURI st i img \<Longrightarrow>
     imageFromURI st ar w h up uid mv md i img = Inr (ErrorRecord accessError)"
  by (auto simp: imageFromURI_def accessFailsURI_def decomposes_def Let_def signedOrError_fails
      split: option.splits sum.splits)

lemma imageFromBase64_access_fails:
  "raiFilteredReason img = None \<Longrightarrow> accessFailsBase64 st target imgs i img \<Longrightarrow>
     imageFromBase64 st (bucketNameOf target)
       (folderNameOf target (generateUniqueFolderId (random st))) imgs ar w h up uid mv md i img
     = ErrorRecord accessError"
  by (auto simp: imageFromBase64_def accessFailsBase64_def uploadFails_def uploadedUri_def Let_def
      signedOrError_fails split: option.splits sum.splits)

lemma imageFromURI_same:
  "sameButAccessAt i st st' \<Longrightarrow> j \<noteq> i \<Longrightarrow>
     imageFromURI st' ar w h up uid mv md j img = imageFromURI st ar w h up uid mv md j img"
proof -
  assume a: "sameButAccessAt i st st'" and b: "j \<noteq> i"
  have eqs: "getSignedURL st' j = getSignedURL st j" "decomposeUri st' = decomposeUri st"
    "formattedDate st' = formattedDate st"
    using a b by (simp_all add: sameButAccessAt_def)
  show ?thesis unfolding imageFromURI_def eqs by (rule refl)
qed

lemma imageFromBase64_same:
  "sameButAccessAt i st st' \<Longrightarrow> j \<noteq> i \<Longrightarrow>
     imageFromBase64 st' b f imgs ar w h up uid mv md j img
       = imageFromBase64 st b f imgs ar w h up uid mv md j img"
proof -
  assume a: "sameButAccessAt i st st'" and b: "j \<noteq> i"
  have eqs: "getSignedURL st' j = getSignedURL st j"
    "uploadBase64Image st' j = uploadBase64Image st j" "formattedDate st' = formattedDate st"
    using a b by (simp_all add: sameButAccessAt_def)
  show ?thesis unfolding imageFromBase64_def eqs by (rule refl)
qed

lemma decomposes_same: "sameButAccessAt i st st' \<Longrightarrow> decomposes st' k img = decomposes st k img"
  by (simp add: decomposes_def sameButAccessAt_def)

section \<open>The whole batch\<close>

lemma buildImageListFromURI_rejects_iff:
  "(\<exists>e. buildImageListFromURI st imgs ar w h up uid mv md = Inl e)
     \<longleftrightarrow> (\<exists>k<length imgs. raiFilteredReason (imgs ! k) = None \<and> \<not> decomposes st k (imgs ! k))"
  by (simp add: buildImageListFromURI_def promiseAll_Inl_iff length_mapIndexed nth_mapIndexed
      imageFromURI_isl cong: conj_cong)

lemma buildImageListFromURI_returns:
  assumes "buildImageListFromURI st imgs ar w h up uid mv md = Inr rs"
  shows "length rs = length imgs
     \<and> (\<forall>k<length imgs. imageFromURI st ar w h up uid mv md k (imgs ! k) = Inr (rs ! k))"
  using promiseAll_Inr_nth [OF assms [unfolded buildImageListFromURI_def]]
  by (simp add: length_mapIndexed nth_mapIndexed)

lemma buildImageListFromBase64_returns:
  "\<exists>rs. buildImageListFromBase64 st imgs target ar w h up uid mv md = Inr rs
     \<and> length rs = length imgs
     \<and> (\<forall>k<length imgs.
           rs ! k = imageFromBase64 st (bucketNameOf target)
                      (folderNameOf target (generateUniqueFolderId (random st)))
                      imgs ar w h up uid mv md k (imgs ! k))"
proof -
  let ?f = "imageFromBase64 st (bucketNameOf target)
              (folderNameOf target (generateUniqueFolderId (random st)))
              imgs ar w h up uid mv md"
  have eq: "mapIndexed (\<lambda>i img. Inr (?f i img)) imgs = map Inr (mapIndexed ?f imgs)"
    by (simp add: mapIndexed_def split_def)
  have "buildImageListFromBase64 st imgs target ar w h up uid mv md = Inr (mapIndexed ?f imgs)"
    unfolding buildImageListFromBase64_def Let_def eq by (rule promiseAll_map_Inr)
  then show ?thesis by (simp add: length_mapIndexed nth_mapIndexed)
qed

lemma all_less_3: "(\<forall>i<(3::nat). P i) \<longleftrightarrow> P 0 \<and> P 1 \<and> P 2"
proof -
  have "\<And>i::nat. i < 3 \<longleftrightarrow> i = 0 \<or> i = 1 \<or> i = 2" by auto
  then show ?thesis by auto
qed

section \<open>Rounding to a double\<close>

lemma pow2_powr: "pow2 e = 2 powr (of_int e)"
proof (cases "0 \<le> e")
  case True
  then have "(2::real) ^ nat e = 2 powr (of_int e)"
    by (simp add: powr_realpow [symmetric])
  then show ?thesis using True by (simp add: pow2_def)
next
  case False
  then have "(2::real) ^ nat (- e) = 2 powr (of_int (- e))"
    by (simp add: powr_realpow [symmetric])
  then show ?thesis using False by (simp add: pow2_def powr_minus divide_inverse)
qed

lemma pow2_pos: "0 < pow2 e"
  by (simp add: pow2_powr)

lemma pow2_mono: "pow2 a \<le> pow2 b \<longleftrightarrow> a \<le> b"
  by (simp add: pow2_powr)

lemma pow2_strict_mono: "pow2 a < pow2 b \<longleftrightarrow> a < b"
  by (simp add: pow2_powr)

lemma pow2_add: "pow2 (a + b) = pow2 a * pow2 b"
  by (simp add: pow2_powr powr_add)

lemma pow2_nat: "pow2 (int n) = 2 ^ n"
  by (simp add: pow2_def)

lemma roundHalfEven_of_int: "roundHalfEven (of_int k) = k"
  by (simp add: roundHalfEven_def)

lemma roundHalfEven_nonneg: "0 \<le> y \<Longrightarrow> 0 \<le> roundHalfEven y"
  by (auto simp: roundHalfEven_def Let_def)

lemma roundHalfEven_le: "y \<le> of_int N \<Longrightarrow> roundHalfEven y \<le> N"
proof -
  assume a: "y \<le> of_int N"
  show ?thesis
  proof (cases "y = of_int N")
    case True
    then show ?thesis by (simp add: roundHalfEven_of_int)
  next
    case False
    then have "y < of_int N" using a by simp
    then have "\<lfloor>y\<rfloor> < N" by (simp add: floor_less_iff)
    then show ?thesis by (auto simp: roundHalfEven_def Let_def)
  qed
qed

lemma roundHalfEven_below:
  assumes "y \<le> of_int N - c" and "1 / 2 < c"
  shows "roundHalfEven y \<le> N - 1"
proof -
  have "y < of_int N" using assms by simp
  then have f: "\<lfloor>y\<rfloor> \<le> N - 1" by (simp add: floor_less_iff)
  show ?thesis
  proof (cases "\<lfloor>y\<rfloor> = N - 1")
    case True
    then have "y - of_int \<lfloor>y\<rfloor> < 1 / 2" using assms by simp
    then show ?thesis using True by (simp add: roundHalfEven_def Let_def)
  next
    case False
    then have "\<lfloor>y\<rfloor> + 1 \<le> N - 1" using f by simp
    then show ?thesis by (auto simp: roundHalfEven_def Let_def)
  qed
qed

lemma exponentUp_spec:
  assumes "p = pow2 (e + 1)" and "pow2 e \<le> x" and "e \<le> 1023" and "x < pow2 1024"
  shows "pow2 (exponentUp e p x) \<le> x \<and> x < pow2 (exponentUp e p x + 1) \<and> e \<le> exponentUp e p x"
  using assms
proof (induction e p x rule: exponentUp.induct)
  case (1 e p x)
  show ?case
  proof (cases "1023 \<le> e \<or> x < p")
    case True
    then have r: "exponentUp e p x = e" by (subst exponentUp.simps) simp
    have "x < pow2 (e + 1)"
    proof (cases "1023 \<le> e")
      case True
      then have "e = 1023" using "1.prems"(3) by simp
      then show ?thesis using "1.prems"(4) by simp
    next
      case False
      then show ?thesis using True "1.prems"(1) by simp
    qed
    then show ?thesis using r "1.prems"(2) by simp
  next
    case False
    then have r: "exponentUp e p x = exponentUp (e + 1) (2 * p) x"
      by (subst exponentUp.simps) simp
    have "2 * p = pow2 (e + 1 + 1)"
      using pow2_add [of 1 "e + 1"] "1.prems"(1) by (simp add: pow2_def add.commute)
    moreover have "pow2 (e + 1) \<le> x" "e + 1 \<le> 1023" using False "1.prems"(1) by simp_all
    ultimately show ?thesis using "1.IH" [OF False _ _ _ "1.prems"(4)] unfolding r by simp
  qed
qed

lemma exponentDown_spec:
  assumes "p = pow2 e" and "x < pow2 (e + 1)"
  shows "x < pow2 (exponentDown e p x + 1) \<and> exponentDown e p x \<le> e"
  using assms
proof (induction e p x rule: exponentDown.induct)
  case (1 e p x)
  show ?case
  proof (cases "e \<le> - 1022 \<or> p \<le> x")
    case True
    then have "exponentDown e p x = e" by (subst exponentDown.simps) simp
    then show ?thesis using "1.prems" by simp
  next
    case False
    then have r: "exponentDown e p x = exponentDown (e - 1) (p / 2) x"
      by (subst exponentDown.simps) simp
    have "pow2 e = pow2 1 * pow2 (e - 1)" using pow2_add [of 1 "e - 1"] by simp
    then have "p / 2 = pow2 (e - 1)" using "1.prems"(1) by (simp add: pow2_def)
    moreover have "x < pow2 (e - 1 + 1)" using False "1.prems"(1) by simp
    ultimately show ?thesis using "1.IH" [OF False] unfolding r by simp
  qed
qed

lemma pow2_two: "2 = pow2 (0 + 1)"
  by (simp add: pow2_def)

lemma pow2_half: "1 / 2 = pow2 (- 1)"
  by (simp add: pow2_def)

text \<open>A positive number below \<open>2 ^ 1024\<close> lies below the upper end of its binade.\<close>

lemma exponent_upper:
  assumes "0 \<le> x" and "x < pow2 1024"
  shows "x < pow2 (exponent x + 1)"
proof (cases "1 \<le> x")
  case True
  then have "pow2 0 \<le> x" by (simp add: pow2_def)
  from exponentUp_spec [OF pow2_two this _ assms(2)] True assms(1) show ?thesis
    by (simp add: exponent_def)
next
  case False
  then have "x < pow2 (- 1 + 1)" by (simp add: pow2_def)
  from exponentDown_spec [OF pow2_half this] False assms(1) show ?thesis
    by (simp add: exponent_def)
qed

lemma exponent_lower:
  assumes "1 \<le> x" and "x < pow2 1024"
  shows "pow2 (exponent x) \<le> x \<and> 0 \<le> exponent x"
proof -
  have "pow2 0 \<le> x" using assms(1) by (simp add: pow2_def)
  from exponentUp_spec [OF pow2_two this _ assms(2)] assms(1) show ?thesis
    by (simp add: exponent_def)
qed

lemma exponent_less:
  assumes "0 \<le> x" and "x < pow2 k" and "0 \<le> k" and "k \<le> 1024"
  shows "exponent x < k"
proof (cases "1 \<le> x")
  case True
  have "x < pow2 1024" using assms(2,4) pow2_mono [of k 1024] by simp
  from exponent_lower [OF True this] assms(2) have "pow2 (exponent x) < pow2 k" by simp
  then show ?thesis by (simp add: pow2_strict_mono)
next
  case False
  then have "x < pow2 (- 1 + 1)" by (simp add: pow2_def)
  from exponentDown_spec [OF pow2_half this] False assms(1) have "exponent x \<le> - 1"
    by (simp add: exponent_def)
  then show ?thesis using assms(3) by simp
qed

lemma fl_nonneg: "0 \<le> x \<Longrightarrow> 0 \<le> fl x"
  by (simp add: fl_def Let_def ulp_def pow2_pos less_imp_le roundHalfEven_nonneg)

text \<open>Rounding does not leave the binade: below \<open>2 ^ k\<close> stays at most \<open>2 ^ k\<close>.\<close>

lemma fl_le_pow2:
  assumes "0 \<le> x" and "x < pow2 k" and "0 \<le> k" and "k \<le> 1024"
  shows "fl x \<le> pow2 k"
proof (cases "x = 0")
  case True
  then show ?thesis using pow2_pos [of k] by (simp add: fl_def Let_def)
next
  case False
  let ?e = "exponent x"
  have x1024: "x < pow2 1024" using assms(2,4) pow2_mono [of k 1024] by simp
  have up: "x < pow2 (?e + 1)" using assms(1) x1024 by (rule exponent_upper)
  have ek: "?e + 1 \<le> k" using exponent_less [OF assms] by simp
  have split: "pow2 (?e + 1) = pow2 53 * pow2 (?e - 52)"
    using pow2_add [of 53 "?e - 52"] by (simp add: add.commute)
  then have "x / pow2 (?e - 52) < pow2 53"
    using up pow2_pos [of "?e - 52"] by (simp add: divide_less_eq)
  then have "x / ulp x \<le> of_int (2 ^ 53)"
    by (simp add: ulp_def pow2_def)
  then have "roundHalfEven (x / ulp x) \<le> 2 ^ 53" by (rule roundHalfEven_le)
  then have "of_int (roundHalfEven (x / ulp x)) \<le> (2 ^ 53 :: real)"
    by simp
  then have "of_int (roundHalfEven (x / ulp x)) * ulp x \<le> 2 ^ 53 * pow2 (?e - 52)"
    using pow2_pos [of "?e - 52"] by (simp add: ulp_def)
  also have "\<dots> = pow2 (?e + 1)"
    unfolding split by (simp add: pow2_def)
  also have "\<dots> \<le> pow2 k" using ek by (simp add: pow2_mono)
  finally show ?thesis using False by (simp add: fl_def Let_def)
qed

text \<open>Integers below \<open>2 ^ 53\<close> are doubles: the arithmetic on them is exact.\<close>

lemma fl_of_int:
  assumes "0 \<le> n" and "n < 2 ^ 53"
  shows "fl (of_int n) = of_int n"
proof (cases "n = 0")
  case True
  then show ?thesis by (simp add: fl_def Let_def)
next
  case False
  let ?x = "of_int n :: real"
  let ?e = "exponent ?x"
  have one: "1 \<le> ?x" using assms(1) False by simp
  have "?x < 2 ^ 53" using assms(2) by simp
  then have lt53: "?x < pow2 53" by (simp add: pow2_def)
  then have lt1024: "?x < pow2 1024" using pow2_mono [of 53 1024] by simp
  have e0: "0 \<le> ?e" using exponent_lower [OF one lt1024] by simp
  have e52: "?e \<le> 52" using exponent_less [OF _ lt53] assms(1) by simp
  define j where "j = nat (52 - ?e)"
  have u: "ulp ?x = 1 / 2 ^ j" using e0 e52 by (auto simp: ulp_def pow2_def j_def)
  have "?x / ulp ?x = of_int (n * 2 ^ j)" by (simp add: u)
  then have "roundHalfEven (?x / ulp ?x) = n * 2 ^ j" by (simp only: roundHalfEven_of_int)
  then show ?thesis using False by (simp add: fl_def Let_def u)
qed

text \<open>A double in \<open>[1/2, 1)\<close> is a multiple of \<open>2 ^ -53\<close>, hence at most \<open>1 - 2 ^ -53\<close>.\<close>

lemma double_below_one:
  assumes "isDouble r" and "1 / 2 \<le> r" and "r < 1"
  shows "r \<le> 1 - 1 / 2 ^ 53"
proof -
  have e: "exponent r = - 1"
    using assms(2,3) by (simp add: exponent_def exponentDown.simps)
  have u: "ulp r = 1 / 2 ^ 53" by (simp add: ulp_def e pow2_def)
  define m where "m = roundHalfEven (r / ulp r)"
  have r: "r = of_int m / 2 ^ 53"
    using assms(1,2) by (simp add: isDouble_def fl_def Let_def u m_def)
  then have "of_int m < (2 ^ 53 :: real)" using assms(3) by (simp add: divide_less_eq)
  then have "m < 2 ^ 53" by simp
  then have "m \<le> 2 ^ 53 - 1" by simp
  then have "of_int m \<le> (2 ^ 53 - 1 :: real)"
    by simp
  then show ?thesis unfolding r by (simp add: divide_le_eq diff_divide_distrib)
qed

text \<open>
  The rounded product of a double in \<open>[0, 1)\<close> with 9 stays below 9, with 10 below 10:
  the product is at most \<open>9 - 9 / 2 ^ 53\<close>, more than half a unit in the last place
  (\<open>2 ^ -49\<close>) below 9, and likewise for 10.
\<close>

lemma fl_product_below:
  assumes "isDouble r" and "0 \<le> r" and "r < 1" and "k = 9 \<or> k = 10"
  shows "0 \<le> fl (r * of_int k) \<and> fl (r * of_int k) < of_int k"
proof -
  let ?x = "r * of_int k"
  have k: "8 < k" "k < 16" "0 < k" using assms(4) by auto
  have x0: "0 \<le> ?x" using assms(2) k by simp
  have lo: "0 \<le> fl ?x" using x0 by (rule fl_nonneg)
  have hi: "fl ?x < of_int k"
  proof (cases "?x < 8")
    case True
    then have "?x < pow2 3" by (simp add: pow2_def)
    from fl_le_pow2 [OF x0 this] have "fl ?x \<le> 8" by (simp add: pow2_def)
    then show ?thesis using k by simp
  next
    case False
    then have x8: "8 \<le> ?x" by simp
    have "?x \<le> r * 10" using assms(2,4) by auto
    then have "8 \<le> r * 10" using x8 by simp
    then have "1 / 2 \<le> r" by linarith
    from double_below_one [OF assms(1) this assms(3)] have r: "r \<le> 1 - 1 / 2 ^ 53" .
    have "?x < 1 * of_int k" using assms(3) k by (intro mult_strict_right_mono) simp_all
    moreover have "of_int k < (16 :: real)" using k by simp
    ultimately have x16: "?x < 16" by simp
    have xne: "?x \<noteq> 0" using x8 by linarith
    have e: "exponent ?x = 3"
    proof -
      have "?x < pow2 4" using x16 by (simp add: pow2_def)
      from exponent_less [OF x0 this] have "exponent ?x < 4" by simp
      moreover have "?x < pow2 (exponent ?x + 1)"
        using x0 x16 pow2_mono [of 4 1024] by (intro exponent_upper) (auto simp: pow2_def)
      then have "pow2 3 < pow2 (exponent ?x + 1)" using x8 by (simp add: pow2_def)
      then have "3 < exponent ?x + 1" by (simp add: pow2_strict_mono)
      ultimately show ?thesis by simp
    qed
    have u: "ulp ?x = 1 / 2 ^ 49" by (simp add: ulp_def e pow2_def)
    have "?x \<le> (1 - 1 / 2 ^ 53) * of_int k" using r k by simp
    then have "?x / ulp ?x \<le> of_int (k * 2 ^ 49) - of_int k / 16"
      by (simp add: u field_simps)
    moreover have "1 / 2 < (of_int k / 16 :: real)" using k by simp
    ultimately have "roundHalfEven (?x / ulp ?x) \<le> k * 2 ^ 49 - 1"
      by (rule roundHalfEven_below)
    then have "of_int (roundHalfEven (?x / ulp ?x)) \<le> (of_int (k * 2 ^ 49 - 1) :: real)"
      by (simp only: of_int_le_iff)
    then have "fl ?x \<le> of_int (k * 2 ^ 49 - 1) / 2 ^ 49"
      using xne by (simp add: fl_def Let_def u divide_le_eq)
    also have "\<dots> < of_int k" by (simp add: field_simps)
    finally show ?thesis .
  qed
  from lo hi show ?thesis by simp
qed

lemma digit_bounds:
  assumes "isDouble r" and "0 \<le> r" and "r < 1" and "k = 9 \<or> k = 10"
  shows "\<exists>d. Math_floor (fl (r * of_int k)) = of_int d \<and> 0 \<le> d \<and> d \<le> k - 1"
proof -
  from fl_product_below [OF assms]
  have "0 \<le> \<lfloor>fl (r * of_int k)\<rfloor>" "\<lfloor>fl (r * of_int k)\<rfloor> < k"
    by (simp_all add: floor_less_iff)
  then show ?thesis by (auto simp: Math_floor_def)
qed


section \<open>Folder ids of given draws\<close>

lemma fl_zero: "fl 0 = 0"
  by (simp add: fl_def)

lemma fl_one: "fl 1 = 1"
  using fl_of_int [of 1] by simp

lemma fl_numeral: "(numeral w :: int) < 2 ^ 53 \<Longrightarrow> fl (numeral w) = numeral w"
  using fl_of_int [of "numeral w"] by simp

lemma Math_floor_numeral: "Math_floor (numeral w) = numeral w"
  by (simp add: Math_floor_def)

lemma Math_floor_zero: "Math_floor 0 = 0"
  by (simp add: Math_floor_def)

text \<open>
  The loop keeps an integer of \<open>i + 1\<close> digits: the products and sums of integers below
  \<open>2 ^ 53\<close> are exact, and each digit lies between 0 and 9.
\<close>

lemma folderIdLoop_bounds:
  assumes "\<forall>k. i < k \<and> k < 13 \<longrightarrow> isDouble (rnd k) \<and> 0 \<le> rnd k \<and> rnd k < 1"
    and "i \<le> 12" and "number = of_int n" and "10 ^ i \<le> n" and "n \<le> 10 ^ (i + 1) - 1"
  shows "\<exists>m. folderIdLoop rnd i number = of_int m \<and> 10 ^ 12 \<le> m \<and> m \<le> 10 ^ 13 - 1"
  using assms
proof (induction rnd i number arbitrary: n rule: folderIdLoop.induct)
  case (1 rnd i number)
  show ?case
  proof (cases "i < 12")
    case True
    then have "isDouble (rnd (i + 1)) \<and> 0 \<le> rnd (i + 1) \<and> rnd (i + 1) < 1"
      using "1.prems"(1) by simp
    then obtain d where d: "Math_floor (fl (rnd (i + 1) * 10)) = of_int d" "0 \<le> d" "d \<le> 9"
      using digit_bounds [of "rnd (i + 1)" 10] by auto
    have p1: "(10::int) ^ (i + 1) = 10 * 10 ^ i" and p2: "(10::int) ^ (i + 1 + 1) = 10 * 10 ^ (i + 1)"
      by simp_all
    have "(10::int) ^ (i + 1) \<le> 10 ^ 13" using "1.prems"(2) by (intro power_increasing) simp_all
    then have small: "n \<le> 10 ^ 13 - 1" using "1.prems"(5) by simp
    have "(0::int) \<le> 10 ^ i" by simp
    then have n0: "0 \<le> n" using "1.prems"(4) by linarith
    have "fl (of_int (n * 10)) = of_int (n * 10)" using small n0 by (intro fl_of_int) simp_all
    then have m1: "fl (number * 10) = of_int (n * 10)" using "1.prems"(3) by simp
    have "fl (of_int (n * 10 + d)) = of_int (n * 10 + d)"
      using small n0 d(2,3) by (intro fl_of_int) simp_all
    then have step: "fl (fl (number * 10) + Math_floor (fl (rnd (i + 1) * 10))) = of_int (n * 10 + d)"
      unfolding m1 d(1) by simp
    have lo: "10 ^ (i + 1) \<le> n * 10 + d"
      unfolding p1 using d(2) "1.prems"(4) by linarith
    have hi: "n * 10 + d \<le> 10 ^ (i + 1 + 1) - 1"
      unfolding p2 using d(3) "1.prems"(5) by linarith
    have "\<exists>m. folderIdLoop rnd (i + 1) (fl (fl (number * 10) + Math_floor (fl (rnd (i + 1) * 10))))
             = of_int m \<and> 10 ^ 12 \<le> m \<and> m \<le> 10 ^ 13 - 1"
      using "1.IH" [OF True _ _ step lo hi] "1.prems"(1) True by simp
    then show ?thesis using True by (subst folderIdLoop.simps) simp
  next
    case False
    then have "i = 12" using "1.prems"(2) by simp
    then have "folderIdLoop rnd i number = of_int n \<and> 10 ^ 12 \<le> n \<and> n \<le> 10 ^ 13 - 1"
      using "1.prems"(3,4,5) by (subst folderIdLoop.simps) simp
    then show ?thesis by blast
  qed
qed

text \<open>The folder id of the sample storage, whose draws are all 0.\<close>

lemma folderId_zero: "generateUniqueFolderId (\<lambda>k. 0) = 1000000000000"
  by (simp add: generateUniqueFolderId_def folderIdLoop.simps fl_zero fl_one fl_numeral
      Math_floor_zero Math_floor_numeral)

lemma folderId_samples:
  "generateUniqueFolderId (random sampleStorage) = 1000000000000"
  "generateUniqueFolderId (random (deniedAt i)) = 1000000000000"
  "generateUniqueFolderId (random (uploadRejectedAt i)) = 1000000000000"
  "generateUniqueFolderId (random (uploadRefusedAt i)) = 1000000000000"
  by (simp_all add: sampleStorage_def deniedAt_def uploadRejectedAt_def uploadRefusedAt_def
      folderId_zero)

section \<open>Length and order of the normalized list\<close>

text \<open>
  C1 says that both normalizers return, for every input, a list as long as the input. For
  \<^verbatim>\<open>buildImageListFromURI\<close> this fails when \<^verbatim>\<open>decomposeUri\<close> answers without a
  file name: the call of one image, made before the \<^verbatim>\<open>try\<close>, throws, and the whole
  call rejects.
\<close>

theorem normalizer_uri_rejects_counterexample:
  "buildImageListFromURI (sampleStorage\<lparr>decomposeUri := \<lambda>i uri. Inr None\<rparr>)
     [uriResult ''sample_0.png''] ''1:1'' 1024 1024 ''a cat'' ''u1'' ''imagen-4.0'' ''Generated''
   = Inl (cannotRead ''replaceAll'')"
  by code_simp

text \<open>
  C1, amended: \<^verbatim>\<open>buildImageListFromBase64\<close> always returns a list of the length of
  its input whose \<open>i\<close>-th element is the record of the \<open>i\<close>-th model result: the warning
  of a filtered result, else a success record or the error record.
  \<^verbatim>\<open>buildImageListFromURI\<close> does so whenever \<^verbatim>\<open>decomposeUri\<close> answers with a file
  name for every result that is not filtered.
\<close>

theorem normalizers_keep_length_and_order:
  "(\<exists>rs. buildImageListFromBase64 st imgs target ar w h up uid mv md = Inr rs
         \<and> length rs = length imgs
         \<and> (\<forall>i<length imgs.
               rs ! i = imageFromBase64 st (bucketNameOf target)
                          (folderNameOf target (generateUniqueFolderId (random st)))
                          imgs ar w h up uid mv md i (imgs ! i)
               \<and> fits up (imgs ! i) (rs ! i)))
   \<and> ((\<forall>i<length imgs. raiFilteredReason (imgs ! i) = None \<longrightarrow> decomposes st i (imgs ! i))
        \<longrightarrow> (\<exists>rs. buildImageListFromURI st imgs ar w h up uid mv md = Inr rs
               \<and> length rs = length imgs
               \<and> (\<forall>i<length imgs.
                     imageFromURI st ar w h up uid mv md i (imgs ! i) = Inr (rs ! i)
                     \<and> fits up (imgs ! i) (rs ! i))))"
proof (intro conjI impI)
  obtain rs where rs: "buildImageListFromBase64 st imgs target ar w h up uid mv md = Inr rs"
      "length rs = length imgs"
      "\<forall>k<length imgs.
         rs ! k = imageFromBase64 st (bucketNameOf target)
                    (folderNameOf target (generateUniqueFolderId (random st)))
                    imgs ar w h up uid mv md k (imgs ! k)"
    using buildImageListFromBase64_returns by blast
  then show "\<exists>rs. buildImageListFromBase64 st imgs target ar w h up uid mv md = Inr rs
         \<and> length rs = length imgs
         \<and> (\<forall>i<length imgs.
               rs ! i = imageFromBase64 st (bucketNameOf target)
                          (folderNameOf target (generateUniqueFolderId (random st)))
                          imgs ar w h up uid mv md i (imgs ! i)
               \<and> fits up (imgs ! i) (rs ! i))"
    by (auto simp: imageFromBase64_fits)
next
  assume dec: "\<forall>i<length imgs. raiFilteredReason (imgs ! i) = None \<longrightarrow> decomposes st i (imgs ! i)"
  then have "\<not> (\<exists>e. buildImageListFromURI st imgs ar w h up uid mv md = Inl e)"
    by (auto simp: buildImageListFromURI_rejects_iff)
  then obtain rs where rs: "buildImageListFromURI st imgs ar w h up uid mv md = Inr rs"
    by (cases "buildImageListFromURI st imgs ar w h up uid mv md") auto
  from buildImageListFromURI_returns [OF rs]
  have "length rs = length imgs"
    and nth: "\<forall>k<length imgs. imageFromURI st ar w h up uid mv md k (imgs ! k) = Inr (rs ! k)"
    by simp_all
  moreover have "\<forall>k<length imgs. fits up (imgs ! k) (rs ! k)"
    using nth imageFromURI_fits by blast
  ultimately show "\<exists>rs. buildImageListFromURI st imgs ar w h up uid mv md = Inr rs
               \<and> length rs = length imgs
               \<and> (\<forall>i<length imgs.
                     imageFromURI st ar w h up uid mv md i (imgs ! i) = Inr (rs ! i)
                     \<and> fits up (imgs ! i) (rs ! i))"
    using rs by auto
qed

theorem normalizers_keep_length_and_order_witness:
  "(\<exists>rs. buildImageListFromBase64 (deniedAt 1) sampleBatch ''gs://bucket/u1/generated-images''
            ''1:1'' 1024 1024 ''a cat'' ''u1'' ''imagen-4.0'' ''Generated'' = Inr rs
         \<and> length rs = 3 \<and> rs ! 0 = WarningRecord ''Support codes: 56562880''
         \<and> rs ! 1 = ErrorRecord accessError)
   \<and> (\<exists>rs. buildImageListFromURI (deniedAt 1) sampleBatch ''1:1'' 1024 1024 ''a cat'' ''u1''
              ''imagen-4.0'' ''Generated'' = Inr rs
         \<and> length rs = 3 \<and> rs ! 0 = WarningRecord ''Support codes: 56562880''
         \<and> rs ! 1 = ErrorRecord accessError
         \<and> fits ''a cat'' (uriResult ''sample_2.png'') (rs ! 2))"
proof -
  have len: "length sampleBatch = 3" by (simp add: sampleBatch_def)
  have dec: "\<forall>i<length sampleBatch.
      raiFilteredReason (sampleBatch ! i) = None \<longrightarrow> decomposes (deniedAt 1) i (sampleBatch ! i)"
    unfolding len all_less_3 by code_simp
  have e0: "imageFromBase64 (deniedAt 1) (bucketNameOf ''gs://bucket/u1/generated-images'')
              (folderNameOf ''gs://bucket/u1/generated-images''
                 (generateUniqueFolderId (random (deniedAt 1))))
              sampleBatch ''1:1'' 1024 1024 ''a cat'' ''u1'' ''imagen-4.0'' ''Generated'' 0
              (sampleBatch ! 0) = WarningRecord ''Support codes: 56562880''"
    unfolding folderId_samples by code_simp
  have e1: "imageFromBase64 (deniedAt 1) (bucketNameOf ''gs://bucket/u1/generated-images'')
              (folderNameOf ''gs://bucket/u1/generated-images''
                 (generateUniqueFolderId (random (deniedAt 1))))
              sampleBatch ''1:1'' 1024 1024 ''a cat'' ''u1'' ''imagen-4.0'' ''Generated'' 1
              (sampleBatch ! 1) = ErrorRecord accessError"
    unfolding folderId_samples by code_simp
  have u0: "imageFromURI (deniedAt 1) ''1:1'' 1024 1024 ''a cat'' ''u1'' ''imagen-4.0''
              ''Generated'' 0 (sampleBatch ! 0) = Inr (WarningRecord ''Support codes: 56562880'')"
    by code_simp
  have u1: "imageFromURI (deniedAt 1) ''1:1'' 1024 1024 ''a cat'' ''u1'' ''imagen-4.0''
              ''Generated'' 1 (sampleBatch ! 1) = Inr (ErrorRecord accessError)"
    by code_simp
  have s2: "sampleBatch ! 2 = uriResult ''sample_2.png''" by (simp add: sampleBatch_def)
  note inst = normalizers_keep_length_and_order [of "deniedAt 1" sampleBatch
      "''gs://bucket/u1/generated-images''" "''1:1''" 1024 1024 "''a cat''" "''u1''"
      "''imagen-4.0''" "''Generated''"]
  from inst dec show ?thesis
    unfolding len all_less_3 using e0 e1 u0 u1 s2 by auto
qed

section \<open>A failing decomposeUri rejects the whole call\<close>

text \<open>
  C9: in \<^verbatim>\<open>buildImageListFromURI\<close>, when \<^verbatim>\<open>decomposeUri\<close> rejects or answers
  without a file name for a result that is not filtered, the promise of that image
  rejects instead of yielding an error record, and the whole call rejects.
\<close>

theorem decomposeUri_failure_escapes:
  assumes "i < length imgs"
    and "raiFilteredReason (imgs ! i) = None"
    and "\<not> decomposes st i (imgs ! i)"
  shows "(\<exists>e. imageFromURI st ar w h up uid mv md i (imgs ! i) = Inl e)
       \<and> (\<exists>e. buildImageListFromURI st imgs ar w h up uid mv md = Inl e)"
proof
  have "isl (imageFromURI st ar w h up uid mv md i (imgs ! i))"
    using assms by (simp add: imageFromURI_isl)
  then show "\<exists>e. imageFromURI st ar w h up uid mv md i (imgs ! i) = Inl e"
    by (cases "imageFromURI st ar w h up uid mv md i (imgs ! i)") auto
  show "\<exists>e. buildImageListFromURI st imgs ar w h up uid mv md = Inl e"
    using assms by (auto simp: buildImageListFromURI_rejects_iff)
qed

theorem decomposeUri_failure_escapes_witness:
  "imageFromURI (undecomposedAt 2) ''1:1'' 1024 1024 ''a cat'' ''u1'' ''imagen-4.0'' ''Generated''
      2 (sampleBatch ! 2) = Inl (Error ''Invalid URI'')
   \<and> buildImageListFromURI (undecomposedAt 2) sampleBatch ''1:1'' 1024 1024 ''a cat'' ''u1''
        ''imagen-4.0'' ''Generated'' = Inl (Error ''Invalid URI'')"
proof -
  have a: "2 < length sampleBatch" by (simp add: sampleBatch_def)
  have b: "raiFilteredReason (sampleBatch ! 2) = None" by code_simp
  have c: "\<not> decomposes (undecomposedAt 2) 2 (sampleBatch ! 2)" by code_simp
  have d: "decomposeUri (undecomposedAt 2) 2 (orEmpty (gcsUri (sampleBatch ! 2))) = Inl (Error ''Invalid URI'')"
    by code_simp
  have e: "decomposes (undecomposedAt 2) 1 (sampleBatch ! 1)" by code_simp
  from decomposeUri_failure_escapes [OF a b c, of "''1:1''" 1024 1024 "''a cat''" "''u1''"
      "''imagen-4.0''" "''Generated''"]
  obtain e1 e2 where
    r1: "imageFromURI (undecomposedAt 2) ''1:1'' 1024 1024 ''a cat'' ''u1'' ''imagen-4.0''
           ''Generated'' 2 (sampleBatch ! 2) = Inl e1"
    and r2: "buildImageListFromURI (undecomposedAt 2) sampleBatch ''1:1'' 1024 1024 ''a cat''
           ''u1'' ''imagen-4.0'' ''Generated'' = Inl e2"
    by blast
  have "e1 = Error ''Invalid URI''"
    using r1 b d by (simp add: imageFromURI_def)
  moreover have "e2 = Error ''Invalid URI''"
  proof -
    have "buildImageListFromURI (undecomposedAt 2) sampleBatch ''1:1'' 1024 1024 ''a cat''
           ''u1'' ''imagen-4.0'' ''Generated'' = Inl (Error ''Invalid URI'')"
      by code_simp
    with r2 show ?thesis by simp
  qed
  ultimately show ?thesis using r1 r2 by simp
qed

section \<open>A failing access is an error record of one image\<close>

text \<open>
  C5 says that, whenever the retrieval of a signed URL or an upload fails for an item,
  the call as a whole does not fail. In \<^verbatim>\<open>buildImageListFromURI\<close> it can: the signed
  URL of image 1 is refused, which alone would give the error record of image 1, and
  \<^verbatim>\<open>decomposeUri\<close> rejects for image 2; the call rejects and no record is returned.
\<close>

theorem access_failure_uri_call_rejects_counterexample:
  "raiFilteredReason (sampleBatch ! 1) = None
   \<and> accessFailsURI (deniedUndecomposedAt 1 2) 1 (sampleBatch ! 1)
   \<and> imageFromURI (deniedUndecomposedAt 1 2) ''1:1'' 1024 1024 ''a cat'' ''u1'' ''imagen-4.0''
        ''Generated'' 1 (sampleBatch ! 1)
      = Inr (ErrorRecord ''Error while getting secured access to content.'')
   \<and> buildImageListFromURI (deniedUndecomposedAt 1 2) sampleBatch ''1:1'' 1024 1024 ''a cat'' ''u1''
        ''imagen-4.0'' ''Generated''
      = Inl (Error ''Invalid URI'')"
  by code_simp

text \<open>
  C5, amended: let the secured access to image \<open>i\<close>, which is not filtered, fail: the
  retrieval of its signed URL fails, or its upload rejects or answers without success.
  Then the record of image \<open>i\<close> is the error record
  "Error while getting secured access to content.". \<^verbatim>\<open>buildImageListFromBase64\<close>
  returns the list, with that record at index \<open>i\<close>; \<^verbatim>\<open>buildImageListFromURI\<close> does so
  whenever \<^verbatim>\<open>decomposeUri\<close> answers with a file name for every image that is not
  filtered, and it rejects exactly when \<^verbatim>\<open>decomposeUri\<close> does not. In both, a storage
  that differs only in the answers to the accesses of image \<open>i\<close> returns a list too, with
  the same records at every other index.
\<close>

theorem access_failure_is_per_image:
  assumes "i < length imgs" and "raiFilteredReason (imgs ! i) = None"
  shows "(accessFailsURI st i (imgs ! i) \<longrightarrow>
            imageFromURI st ar w h up uid mv md i (imgs ! i)
              = Inr (ErrorRecord ''Error while getting secured access to content.'')
            \<and> ((\<exists>e. buildImageListFromURI st imgs ar w h up uid mv md = Inl e)
                 \<longleftrightarrow> (\<exists>k<length imgs. raiFilteredReason (imgs ! k) = None
                                        \<and> \<not> decomposes st k (imgs ! k)))
            \<and> ((\<forall>k<length imgs. raiFilteredReason (imgs ! k) = None \<longrightarrow> decomposes st k (imgs ! k))
                 \<longrightarrow> (\<exists>rs. buildImageListFromURI st imgs ar w h up uid mv md = Inr rs
                        \<and> length rs = length imgs
                        \<and> rs ! i = ErrorRecord ''Error while getting secured access to content.''
                        \<and> (\<forall>st'. sameButAccessAt i st st' \<longrightarrow>
                              (\<exists>rs'. buildImageListFromURI st' imgs ar w h up uid mv md = Inr rs'
                                   \<and> (\<forall>j<length imgs. j \<noteq> i \<longrightarrow> rs' ! j = rs ! j))))))
       \<and> (accessFailsBase64 st target imgs i (imgs ! i) \<longrightarrow>
            (\<exists>rs. buildImageListFromBase64 st imgs target ar w h up uid mv md = Inr rs
                 \<and> length rs = length imgs
                 \<and> rs ! i = ErrorRecord ''Error while getting secured access to content.''
                 \<and> (\<forall>st'. sameButAccessAt i st st' \<longrightarrow>
                       (\<exists>rs'. buildImageListFromBase64 st' imgs target ar w h up uid mv md = Inr rs'
                            \<and> (\<forall>j<length imgs. j \<noteq> i \<longrightarrow> rs' ! j = rs ! j)))))"
  unfolding accessError_def [symmetric]
proof (intro conjI impI)
  assume f: "accessFailsURI st i (imgs ! i)"
  show "imageFromURI st ar w h up uid mv md i (imgs ! i) = Inr (ErrorRecord accessError)"
    using assms(2) f by (rule imageFromURI_access_fails)
  show "(\<exists>e. buildImageListFromURI st imgs ar w h up uid mv md = Inl e)
          \<longleftrightarrow> (\<exists>k<length imgs. raiFilteredReason (imgs ! k) = None \<and> \<not> decomposes st k (imgs ! k))"
    by (rule buildImageListFromURI_rejects_iff)
next
  assume f: "accessFailsURI st i (imgs ! i)"
    and dec: "\<forall>k<length imgs. raiFilteredReason (imgs ! k) = None \<longrightarrow> decomposes st k (imgs ! k)"
  have item: "imageFromURI st ar w h up uid mv md i (imgs ! i) = Inr (ErrorRecord accessError)"
    using assms(2) f by (rule imageFromURI_access_fails)
  have returns: "\<exists>rs. buildImageListFromURI s imgs ar w h up uid mv md = Inr rs"
    if "\<forall>k<length imgs. raiFilteredReason (imgs ! k) = None \<longrightarrow> decomposes s k (imgs ! k)" for s
  proof -
    from that have "\<not> (\<exists>e. buildImageListFromURI s imgs ar w h up uid mv md = Inl e)"
      by (auto simp: buildImageListFromURI_rejects_iff)
    then show ?thesis by (cases "buildImageListFromURI s imgs ar w h up uid mv md") auto
  qed
  from returns [OF dec] obtain rs
    where rs: "buildImageListFromURI st imgs ar w h up uid mv md = Inr rs" by blast
  note nth = buildImageListFromURI_returns [OF rs]
  have len: "length rs = length imgs" using nth by simp
  have at_i: "rs ! i = ErrorRecord accessError" using nth assms(1) item by auto
  have other: "\<exists>rs'. buildImageListFromURI st' imgs ar w h up uid mv md = Inr rs'
                  \<and> (\<forall>j<length imgs. j \<noteq> i \<longrightarrow> rs' ! j = rs ! j)"
    if s: "sameButAccessAt i st st'" for st'
  proof -
    have "\<forall>k<length imgs. raiFilteredReason (imgs ! k) = None \<longrightarrow> decomposes st' k (imgs ! k)"
      using dec by (simp add: decomposes_same [OF s])
    from returns [OF this] obtain rs'
      where rs': "buildImageListFromURI st' imgs ar w h up uid mv md = Inr rs'" by blast
    have "rs' ! j = rs ! j" if j: "j < length imgs" "j \<noteq> i" for j
    proof -
      have "Inr (rs' ! j) = imageFromURI st' ar w h up uid mv md j (imgs ! j)"
        using buildImageListFromURI_returns [OF rs'] j by simp
      also have "\<dots> = imageFromURI st ar w h up uid mv md j (imgs ! j)"
        using s j(2) by (rule imageFromURI_same)
      also have "\<dots> = Inr (rs ! j)" using nth j by simp
      finally show ?thesis by simp
    qed
    with rs' show ?thesis by blast
  qed
  show "\<exists>rs. buildImageListFromURI st imgs ar w h up uid mv md = Inr rs
          \<and> length rs = length imgs \<and> rs ! i = ErrorRecord accessError
          \<and> (\<forall>st'. sameButAccessAt i st st' \<longrightarrow>
                (\<exists>rs'. buildImageListFromURI st' imgs ar w h up uid mv md = Inr rs'
                     \<and> (\<forall>j<length imgs. j \<noteq> i \<longrightarrow> rs' ! j = rs ! j)))"
    using rs len at_i other by blast
next
  assume f: "accessFailsBase64 st target imgs i (imgs ! i)"
  obtain rs where rs: "buildImageListFromBase64 st imgs target ar w h up uid mv md = Inr rs"
      "length rs = length imgs"
      "\<forall>k<length imgs.
         rs ! k = imageFromBase64 st (bucketNameOf target)
                    (folderNameOf target (generateUniqueFolderId (random st)))
                    imgs ar w h up uid mv md k (imgs ! k)"
    using buildImageListFromBase64_returns by blast
  have item: "rs ! i = ErrorRecord accessError"
    using rs(3) assms imageFromBase64_access_fails [OF assms(2) f] by simp
  have other: "\<exists>rs'. buildImageListFromBase64 st' imgs target ar w h up uid mv md = Inr rs'
                  \<and> (\<forall>j<length imgs. j \<noteq> i \<longrightarrow> rs' ! j = rs ! j)"
    if s: "sameButAccessAt i st st'" for st'
  proof -
    obtain rs' where rs': "buildImageListFromBase64 st' imgs target ar w h up uid mv md = Inr rs'"
        "\<forall>k<length imgs.
           rs' ! k = imageFromBase64 st' (bucketNameOf target)
                      (folderNameOf target (generateUniqueFolderId (random st')))
                      imgs ar w h up uid mv md k (imgs ! k)"
      using buildImageListFromBase64_returns by blast
    have r: "random st' = random st" using s by (simp add: sameButAccessAt_def)
    have "\<forall>j<length imgs. j \<noteq> i \<longrightarrow> rs' ! j = rs ! j"
      using rs(3) rs'(2) imageFromBase64_same [OF s] by (simp add: r)
    with rs'(1) show ?thesis by blast
  qed
  show "\<exists>rs. buildImageListFromBase64 st imgs target ar w h up uid mv md = Inr rs
          \<and> length rs = length imgs \<and> rs ! i = ErrorRecord accessError
          \<and> (\<forall>st'. sameButAccessAt i st st' \<longrightarrow>
                (\<exists>rs'. buildImageListFromBase64 st' imgs target ar w h up uid mv md = Inr rs'
                     \<and> (\<forall>j<length imgs. j \<noteq> i \<longrightarrow> rs' ! j = rs ! j)))"
    using rs(1,2) item other by blast
qed

lemma sameButAccessAt_samples:
  "sameButAccessAt i (deniedAt i) sampleStorage"
  "sameButAccessAt i (uploadRejectedAt i) sampleStorage"
  "sameButAccessAt i (uploadRefusedAt i) sampleStorage"
  by (simp_all add: sameButAccessAt_def deniedAt_def uploadRejectedAt_def uploadRefusedAt_def)

text \<open>
  The accesses that fail on the samples: a refused signed URL in both normalizers, a
  rejected upload, and an upload that answers without success.
\<close>

lemma accessFails_samples:
  "accessFailsURI (deniedAt 1) 1 (sampleBatch ! 1)"
  "accessFailsBase64 (deniedAt 1) ''gs://bucket/u1/generated-images'' sampleBase64Batch 1
     (sampleBase64Batch ! 1)"
  "accessFailsBase64 (uploadRejectedAt 1) ''gs://bucket/u1/generated-images'' sampleBase64Batch 1
     (sampleBase64Batch ! 1)"
  "accessFailsBase64 (uploadRefusedAt 1) ''gs://bucket/u1/generated-images'' sampleBase64Batch 1
     (sampleBase64Batch ! 1)"
  unfolding accessFailsBase64_def folderId_samples by code_simp+

text \<open>Without the failure both images are uploaded and get their signed URLs.\<close>

lemma sampleBase64Batch_normalized:
  "map (\<lambda>r. case r of Success x \<Rightarrow> imgGcsUri x | WarningRecord w \<Rightarrow> None | ErrorRecord e \<Rightarrow> None)
     (projr (buildImageListFromBase64 sampleStorage sampleBase64Batch
        ''gs://bucket/u1/generated-images'' ''1:1'' 1024 1024 ''a cat'' ''u1'' ''imagen-4.0''
        ''Generated''))
   = [Some ''gs://bucket/u1/generated-images/1000000000000/sample_0.png'',
      Some ''gs://bucket/u1/generated-images/1000000000000/sample_1.png'']"
  unfolding buildImageListFromBase64_def folderId_samples by code_simp

theorem access_failure_is_per_image_witness:
  "accessFailsURI (deniedAt 1) 1 (sampleBatch ! 1)
   \<and> (\<exists>rs rs'. buildImageListFromURI (deniedAt 1) sampleBatch ''1:1'' 1024 1024 ''a cat'' ''u1''
                   ''imagen-4.0'' ''Generated'' = Inr rs
         \<and> buildImageListFromURI sampleStorage sampleBatch ''1:1'' 1024 1024 ''a cat'' ''u1''
                   ''imagen-4.0'' ''Generated'' = Inr rs'
         \<and> length rs = 3 \<and> rs ! 1 = ErrorRecord ''Error while getting secured access to content.''
         \<and> rs' ! 0 = rs ! 0 \<and> rs' ! 2 = rs ! 2)
   \<and> accessFailsBase64 (deniedAt 1) ''gs://bucket/u1/generated-images'' sampleBase64Batch 1
        (sampleBase64Batch ! 1)
   \<and> (\<exists>rs rs'. buildImageListFromBase64 (deniedAt 1) sampleBase64Batch
                   ''gs://bucket/u1/generated-images'' ''1:1'' 1024 1024 ''a cat'' ''u1''
                   ''imagen-4.0'' ''Generated'' = Inr rs
         \<and> buildImageListFromBase64 sampleStorage sampleBase64Batch
                   ''gs://bucket/u1/generated-images'' ''1:1'' 1024 1024 ''a cat'' ''u1''
                   ''imagen-4.0'' ''Generated'' = Inr rs'
         \<and> length rs = 2 \<and> rs ! 1 = ErrorRecord ''Error while getting secured access to content.''
         \<and> rs' ! 0 = rs ! 0)
   \<and> accessFailsBase64 (uploadRejectedAt 1) ''gs://bucket/u1/generated-images'' sampleBase64Batch 1
        (sampleBase64Batch ! 1)
   \<and> (\<exists>rs rs'. buildImageListFromBase64 (uploadRejectedAt 1) sampleBase64Batch
                   ''gs://bucket/u1/generated-images'' ''1:1'' 1024 1024 ''a cat'' ''u1''
                   ''imagen-4.0'' ''Generated'' = Inr rs
         \<and> buildImageListFromBase64 sampleStorage sampleBase64Batch
                   ''gs://bucket/u1/generated-images'' ''1:1'' 1024 1024 ''a cat'' ''u1''
                   ''imagen-4.0'' ''Generated'' = Inr rs'
         \<and> length rs = 2 \<and> rs ! 1 = ErrorRecord ''Error while getting secured access to content.''
         \<and> rs' ! 0 = rs ! 0)
   \<and> accessFailsBase64 (uploadRefusedAt 1) ''gs://bucket/u1/generated-images'' sampleBase64Batch 1
        (sampleBase64Batch ! 1)
   \<and> (\<exists>rs rs'. buildImageListFromBase64 (uploadRefusedAt 1) sampleBase64Batch
                   ''gs://bucket/u1/generated-images'' ''1:1'' 1024 1024 ''a cat'' ''u1''
                   ''imagen-4.0'' ''Generated'' = Inr rs
         \<and> buildImageListFromBase64 sampleStorage sampleBase64Batch
                   ''gs://bucket/u1/generated-images'' ''1:1'' 1024 1024 ''a cat'' ''u1''
                   ''imagen-4.0'' ''Generated'' = Inr rs'
         \<and> length rs = 2 \<and> rs ! 1 = ErrorRecord ''Error while getting secured access to content.''
         \<and> rs' ! 0 = rs ! 0)"
proof -
  let ?U = "\<lambda>st. buildImageListFromURI st sampleBatch ''1:1'' 1024 1024 ''a cat'' ''u1''
              ''imagen-4.0'' ''Generated''"
  let ?B = "\<lambda>st. buildImageListFromBase64 st sampleBase64Batch ''gs://bucket/u1/generated-images''
              ''1:1'' 1024 1024 ''a cat'' ''u1'' ''imagen-4.0'' ''Generated''"
  have len: "length sampleBatch = 3" "length sampleBase64Batch = 2"
    by (simp_all add: sampleBatch_def sampleBase64Batch_def)
  have lt: "1 < length sampleBatch" "1 < length sampleBase64Batch" "0 < length sampleBatch"
    "2 < length sampleBatch" "0 < length sampleBase64Batch"
    by (simp_all add: len)
  have nf: "raiFilteredReason (sampleBatch ! 1) = None"
    "raiFilteredReason (sampleBase64Batch ! 1) = None"
    by code_simp+
  have dec: "\<forall>k<length sampleBatch.
      raiFilteredReason (sampleBatch ! k) = None \<longrightarrow> decomposes (deniedAt 1) k (sampleBatch ! k)"
    unfolding len all_less_3 by code_simp
  note fails = accessFails_samples
  note uri = access_failure_is_per_image [OF lt(1) nf(1), where st = "deniedAt 1"
      and ar = "''1:1''" and w = 1024 and h = 1024 and up = "''a cat''" and uid = "''u1''"
      and mv = "''imagen-4.0''" and md = "''Generated''", folded accessError_def]
  from uri fails(1) dec obtain rs where
    rs: "?U (deniedAt 1) = Inr rs" "length rs = length sampleBatch"
      "rs ! 1 = ErrorRecord accessError"
      "\<forall>st'. sameButAccessAt 1 (deniedAt 1) st' \<longrightarrow>
          (\<exists>rs'. ?U st' = Inr rs' \<and> (\<forall>j<length sampleBatch. j \<noteq> 1 \<longrightarrow> rs' ! j = rs ! j))"
    by blast
  from rs(4) sameButAccessAt_samples(1) obtain rs' where
    rs': "?U sampleStorage = Inr rs'" "\<forall>j<length sampleBatch. j \<noteq> 1 \<longrightarrow> rs' ! j = rs ! j"
    by blast
  have a3: "rs' ! 0 = rs ! 0" "rs' ! 2 = rs ! 2"
    using rs'(2) lt(3,4) by auto
  have u: "\<exists>rs rs'. ?U (deniedAt 1) = Inr rs \<and> ?U sampleStorage = Inr rs'
         \<and> length rs = 3 \<and> rs ! 1 = ErrorRecord accessError
         \<and> rs' ! 0 = rs ! 0 \<and> rs' ! 2 = rs ! 2"
    using rs(1,2,3) rs'(1) a3 len(1) by auto
  have b: "\<exists>rs rs'. ?B s = Inr rs \<and> ?B sampleStorage = Inr rs'
         \<and> length rs = 2 \<and> rs ! 1 = ErrorRecord accessError \<and> rs' ! 0 = rs ! 0"
    if fb: "accessFailsBase64 s ''gs://bucket/u1/generated-images'' sampleBase64Batch 1
              (sampleBase64Batch ! 1)"
      and same: "sameButAccessAt 1 s sampleStorage" for s
  proof -
    note b64 = access_failure_is_per_image [OF lt(2) nf(2), where st = s
        and target = "''gs://bucket/u1/generated-images''"
        and ar = "''1:1''" and w = 1024 and h = 1024 and up = "''a cat''" and uid = "''u1''"
        and mv = "''imagen-4.0''" and md = "''Generated''", folded accessError_def]
    from b64 fb obtain qs where
      qs: "?B s = Inr qs"
        "length qs = length sampleBase64Batch" "qs ! 1 = ErrorRecord accessError"
        "\<forall>st'. sameButAccessAt 1 s st' \<longrightarrow>
            (\<exists>rs'. ?B st' = Inr rs' \<and> (\<forall>j<length sampleBase64Batch. j \<noteq> 1 \<longrightarrow> rs' ! j = qs ! j))"
      by blast
    from qs(4) same obtain qs' where
      qs': "?B sampleStorage = Inr qs'"
        "\<forall>j<length sampleBase64Batch. j \<noteq> 1 \<longrightarrow> qs' ! j = qs ! j"
      by blast
    from qs'(2) lt(5) have "qs' ! 0 = qs ! 0" by auto
    then show ?thesis using qs(1,2,3) qs'(1) len(2) by auto
  qed
  from fails(1) u fails(2) b [OF fails(2) sameButAccessAt_samples(1)]
    fails(3) b [OF fails(3) sameButAccessAt_samples(2)]
    fails(4) b [OF fails(4) sameButAccessAt_samples(3)]
  show ?thesis unfolding accessError_def by (intro conjI)
qed

section \<open>The error messages of upscaleImage\<close>

lemma upscaleImage_step4:
  assumes "reachesUpscale world source appContext base64 targetGCSuri"
  shows "upscaleImage world source upscaleFactor appContext =
     (case upscaleTry (raceWithTimeout
              (request world (upscaleOpts world base64 upscaleFactor targetGCSuri))) of
        Inr reply \<Rightarrow> Some (Inr reply)
      | Inl err \<Rightarrow> Some (Inr (upscaleCatch err)))"
  using assms
  by (auto simp: reachesUpscale_def upscaleImage_def Let_def split: option.splits)

text \<open>
  C6: when the \<^verbatim>\<open>try\<close> of step 4 of \<^verbatim>\<open>upscaleImage\<close> fails with an error whose
  message contains "Response size too large.", the operation returns exactly the message
  for an oversized image; with any other error it returns the generic message.
\<close>

theorem upscale_error_messages:
  assumes "reachesUpscale world source appContext base64 targetGCSuri"
    and "upscaleTry (raceWithTimeout
            (request world (upscaleOpts world base64 upscaleFactor targetGCSuri))) = Inl err"
  shows "upscaleImage world source upscaleFactor appContext =
     Some (Inr (ErrorReply
       (if includes_str (errorMessage err) ''Response size too large.''
        then ''Image size limit exceeded. The resulting image is too large. Please try a smaller resolution or a different image.''
        else ''Error while upscaling images.'')))"
  using assms(2) unfolding upscaleImage_step4 [OF assms(1)]
  by (simp add: upscaleCatch_def tooLarge_def upscaleError_def)

theorem upscale_error_messages_witness:
  "upscaleImage
     (sampleWorld (After 900 (Inl (ErrorObject ''GaxiosError'' ''Response size too large. Limit is 30MB.'' None))))
     (SourceBase64 ''AAAA'') ''x4'' sampleContext
   = Some (Inr (ErrorReply ''Image size limit exceeded. The resulting image is too large. Please try a smaller resolution or a different image.''))
   \<and> upscaleImage
     (sampleWorld (After 900 (Inl (ErrorObject ''GaxiosError'' ''Quota exceeded.'' None))))
     (SourceBase64 ''AAAA'') ''x4'' sampleContext
   = Some (Inr (ErrorReply ''Error while upscaling images.''))"
proof -
  let ?big = "ErrorObject ''GaxiosError'' ''Response size too large. Limit is 30MB.'' None"
  let ?quota = "ErrorObject ''GaxiosError'' ''Quota exceeded.'' None"
  have r: "reachesUpscale (sampleWorld (After 900 (Inl e))) (SourceBase64 ''AAAA'') sampleContext
      (Some ''AAAA'') ''gs://bucket/u1/upscaled-images''" for e
    by (simp add: reachesUpscale_def sampleWorld_def sampleContext_def sourceImage_def)
  have t: "upscaleTry (raceWithTimeout (request (sampleWorld (After 900 (Inl e)))
      (upscaleOpts (sampleWorld (After 900 (Inl e))) (Some ''AAAA'') ''x4''
         ''gs://bucket/u1/upscaled-images''))) = Inl e" for e
    by (simp add: sampleWorld_def raceWithTimeout_def timeout_def upscaleTry_def bindE_def)
  have m: "includes_str (errorMessage ?big) ''Response size too large.''"
    "\<not> includes_str (errorMessage ?quota) ''Response size too large.''"
    by code_simp+
  show ?thesis
    using upscale_error_messages [OF r t, of ?big] upscale_error_messages [OF r t, of ?quota] m
    by simp
qed

section \<open>The timeout of upscaleImage\<close>

text \<open>
  C7: the request of \<^verbatim>\<open>upscaleImage\<close> is raced against a timer of 60000 milliseconds.
  When the request has not settled within 60 seconds, the race rejects with "Upscaling
  timed out", and the operation returns, with the generic error value.
\<close>

theorem upscale_times_out:
  assumes "reachesUpscale world source appContext base64 targetGCSuri"
    and "\<not> settlesWithin 60000
            (request world (upscaleOpts world base64 upscaleFactor targetGCSuri))"
  shows "raceWithTimeout (request world (upscaleOpts world base64 upscaleFactor targetGCSuri))
           = Inl (Error ''Upscaling timed out'')
       \<and> upscaleImage world source upscaleFactor appContext
           = Some (Inr (ErrorReply ''Error while upscaling images.''))"
proof -
  have race: "raceWithTimeout (request world (upscaleOpts world base64 upscaleFactor targetGCSuri))
      = Inl (Error ''Upscaling timed out'')"
    using assms(2)
    by (auto simp: settlesWithin_def raceWithTimeout_def timeout_def split: Settlement.splits)
  have "\<not> includes_str (errorMessage (Error ''Upscaling timed out'')) ''Response size too large.''"
    by code_simp
  then have "upscaleCatch (Error ''Upscaling timed out'') = ErrorReply ''Error while upscaling images.''"
    by (simp add: upscaleCatch_def upscaleError_def)
  then show ?thesis
    unfolding upscaleImage_step4 [OF assms(1)] race by (simp add: upscaleTry_def bindE_def)
qed

theorem upscale_times_out_witness:
  "upscaleImage (sampleWorld Never) (SourceUri ''gs://bucket/u1/generated-images/sample_0.png'')
     ''x2'' sampleContext = Some (Inr (ErrorReply ''Error while upscaling images.''))
   \<and> upscaleImage (sampleWorld (After 60001 (Inr (sampleResponse [uriResult ''sample_0.png'']))))
       (SourceUri ''gs://bucket/u1/generated-images/sample_0.png'') ''x2'' sampleContext
     = Some (Inr (ErrorReply ''Error while upscaling images.''))"
proof -
  have r: "reachesUpscale (sampleWorld p) (SourceUri ''gs://bucket/u1/generated-images/sample_0.png'')
      sampleContext (Some ''AAAA'') ''gs://bucket/u1/upscaled-images''" for p
    by (simp add: reachesUpscale_def sampleWorld_def sampleContext_def sourceImage_def)
  have n: "\<not> settlesWithin 60000 (request (sampleWorld Never) opts)" for opts
    by (simp add: settlesWithin_def sampleWorld_def)
  have l: "\<not> settlesWithin 60000 (request (sampleWorld (After 60001 a)) opts)" for opts a
    by (simp add: settlesWithin_def sampleWorld_def)
  show ?thesis
    using upscale_times_out [OF r n] upscale_times_out [OF r l] by simp
qed

section \<open>generateImage reads a request shape it did not build\<close>

lemma optsAspectRatio_generateOpts:
  "optsAspectRatio (generateOpts world fullPromptFields formData modelVersion)
     = Inl (cannotRead ''aspectRatio'')"
  by (simp add: optsAspectRatio_def generateOpts_def requestOpts_def generateReqData_def bindE_def
      Let_def)

lemma generateCatch_cannotRead_aspectRatio:
  "generateCatch (cannotRead ''aspectRatio'') = ErrorReply ''An unexpected error occurred.''"
  by code_simp

lemma findE_throws: "(\<And>x. p x = Inl e) \<Longrightarrow> findE p xs = (if xs = [] then Inr None else Inl e)"
  by (cases xs) simp_all

text \<open>
  Whatever the response, once it carries content and a list of predictions the
  \<^verbatim>\<open>try\<close> of step 4 throws on \<^verbatim>\<open>opts.data.parameters.aspectRatio\<close>: the request body
  built at lines 333-349 has no property \<^verbatim>\<open>parameters\<close>.
\<close>

lemma generateTry_throws:
  assumes "getIndex (candidates res) 0 = Inr candidate"
    and "getProp candidate ''content'' = Inr content"
    and "content \<noteq> JUndefined"
    and "predictions res = Some resultImages"
  shows "generateTry st RatioToPixel (generateOpts world fullPromptFields formData modelVersion)
           (Inr res) generationGcsURI userID modelVersion
         = Inl (cannotRead ''aspectRatio'')"
proof -
  let ?opts = "generateOpts world fullPromptFields formData modelVersion"
  have f: "findE (\<lambda>item. Inl (cannotRead ''aspectRatio'')) RatioToPixel
      = (if RatioToPixel = [] then Inr None else Inl (cannotRead ''aspectRatio''))"
    by (rule findE_throws) simp
  show ?thesis
    unfolding generateTry_def using assms
    by (simp add: bindE_def f normalizeResults_def optsAspectRatio_generateOpts)
qed

lemma generateImage_unexpected:
  assumes "getClient world = None"
    and "formData ''modelVersion'' = Some modelVersion"
    and "ctxGcsURI ctx = Some gcsURI" and "ctxUserID ctx = Some userID"
    and "request world (generateOpts world fullPromptFields formData modelVersion)
           = After t (Inr res)"
    and "getIndex (candidates res) 0 = Inr candidate"
    and "getProp candidate ''content'' = Inr content"
    and "content \<noteq> JUndefined"
    and "predictions res = Some resultImages"
  shows "generateImage world fullPromptFields RatioToPixel formData isGeminiRewrite (Some ctx)
         = Some (Inr (ErrorReply ''An unexpected error occurred.''))"
  using assms(1-5)
  by (simp add: generateImage_def Let_def generateTry_throws [OF assms(6-9)]
      generateCatch_cannotRead_aspectRatio)

text \<open>
  C3 says that \<^verbatim>\<open>generateImage\<close> returns the normalized list when the response
  carries content and predictions. On the code it returns the generic error value
  instead, for inline-base64 predictions and for storage-URI predictions alike.
\<close>

theorem generateImage_sample_fails:
  "generateImage (sampleWorld (After 1200 (Inr (sampleResponse sampleBase64Batch))))
      [''light''] sampleRatioToPixel sampleGenerateForm False sampleContext
     = Some (Inr (ErrorReply ''An unexpected error occurred.''))
   \<and> generateImage (sampleWorld (After 1200 (Inr (sampleResponse [uriResult ''sample_0.png'']))))
      [''light''] sampleRatioToPixel sampleGenerateForm False sampleContext
     = Some (Inr (ErrorReply ''An unexpected error occurred.''))"
  by code_simp

section \<open>editImage and a filtered first prediction\<close>

lemma replaceFirst_prefix: "replaceFirst (p @ s) p [] = s"
proof (cases "p @ s")
  case Nil
  then show ?thesis by simp
next
  case (Cons c cs)
  have "startsWith (p @ s) p" by (induction p) simp_all
  then show ?thesis using Cons by (metis append_Nil replaceFirst.simps(2) append_eq_conv_conj)
qed

lemma editTry_filtered:
  assumes "predictions res = Some (first # rest)" and "raiFilteredReason first = Some reason"
  shows "editTry (Inr res) = Inl (Error (cleanResult reason))"
  using assms by (simp add: editTry_def bindE_def arrayAt_def)

text \<open>
  What \<^verbatim>\<open>editImage\<close> does when the first prediction is filtered: it returns the
  cleaned reason when that contains one of the two known phrases, and otherwise the
  unguarded \<^verbatim>\<open>myError.errors[0]\<close> throws, so that the call rejects.
\<close>

lemma editImage_filtered:
  assumes "getClient world = None"
    and "ctxGcsURI ctx = Some gcsURI" and "ctxUserID ctx = Some userID"
    and "request world (editOpts world formData (gcsURI @ ''/'' @ userID @ ''/edited-images''))
           = After t (Inr res)"
    and "predictions res = Some (first # rest)" and "raiFilteredReason first = Some reason"
  shows "editImage world formData (Some ctx) =
     (if includes_str (''Error: '' @ cleanResult reason) phrasePeopleFace
         \<or> includes_str (''Error: '' @ cleanResult reason) phraseAllFiltered
      then Some (Inr (ErrorReply (cleanResult reason)))
      else Some (Inl (cannotRead ''0'')))"
proof -
  have c: "editCatch (Error (cleanResult reason)) =
     (if includes_str (''Error: '' @ cleanResult reason) phrasePeopleFace
         \<or> includes_str (''Error: '' @ cleanResult reason) phraseAllFiltered
      then Inr (ErrorReply (cleanResult reason))
      else Inl (cannotRead ''0''))"
  proof (cases "cleanResult reason = []")
    case True
    have "\<not> includes_str ''Error'' phrasePeopleFace" "\<not> includes_str ''Error'' phraseAllFiltered"
      "\<not> includes_str ''Error: '' phrasePeopleFace" "\<not> includes_str ''Error: '' phraseAllFiltered"
      by code_simp+
    then show ?thesis using True by (simp add: editCatch_def Error_def)
  next
    case False
    then have s: "errorToString (Error (cleanResult reason)) = ''Error: '' @ cleanResult reason"
      by (simp add: Error_def)
    show ?thesis
      unfolding editCatch_def Let_def s replaceFirst_prefix by (simp add: Error_def)
  qed
  show ?thesis
    using assms(1-4) by (simp add: editImage_def Let_def editTry_filtered [OF assms(5,6)] c)
qed

text \<open>
  C4 says that \<^verbatim>\<open>editImage\<close> returns an error value with the reason when the first
  prediction is filtered. On the code, with a reason that names neither known phrase, the
  call rejects with a \<^verbatim>\<open>TypeError\<close>.
\<close>

theorem editImage_filtered_sample_throws:
  "editImage (sampleWorld (After 1200 (Inr (sampleResponse sampleBatch)))) sampleEditForm
      sampleContext
     = Some (Inl (TypeError (''Cannot read properties of undefined (reading '' @ apostrophe
               @ ''0'' @ apostrophe @ '')'')))"
  by code_simp

section \<open>Object names of equal images\<close>

lemma fullOjectName_equal:
  assumes "bytesBase64Encoded a = bytesBase64Encoded b" and "mimeType a = mimeType b"
  shows "fullOjectName folderName imagesBase64 a = fullOjectName folderName imagesBase64 b"
  using assms by (simp add: fullOjectName_def sampleFileName_def sampleIndex_def formatOf_def)

text \<open>
  C2 says that two images at distinct indices get distinct object names, also when their
  bytes are equal. On the code the index in the name is that of the first image with
  these bytes: both images of the sample get the name of index 0, and the two records
  returned point to the same object.
\<close>

theorem object_names_collide:
  "fullOjectName
      (folderNameOf ''gs://bucket/u1/generated-images'' (generateUniqueFolderId (random sampleStorage)))
      sampleDuplicates (sampleDuplicates ! 0)
     = ''u1/generated-images/1000000000000/sample_0.png''
   \<and> fullOjectName
      (folderNameOf ''gs://bucket/u1/generated-images'' (generateUniqueFolderId (random sampleStorage)))
      sampleDuplicates (sampleDuplicates ! 1)
     = ''u1/generated-images/1000000000000/sample_0.png''
   \<and> map (\<lambda>r. case r of Success x \<Rightarrow> imgGcsUri x | WarningRecord w \<Rightarrow> None | ErrorRecord e \<Rightarrow> None)
        (projr (buildImageListFromBase64 sampleStorage sampleDuplicates
           ''gs://bucket/u1/generated-images'' ''1:1'' 1024 1024 ''a cat'' ''u1'' ''imagen-4.0''
           ''Generated''))
     = [Some ''gs://bucket/u1/generated-images/1000000000000/sample_0.png'',
        Some ''gs://bucket/u1/generated-images/1000000000000/sample_0.png'']"
  unfolding buildImageListFromBase64_def folderId_samples by code_simp

section \<open>normalizeSentence twice\<close>

text \<open>
  C8 says that \<^verbatim>\<open>normalizeSentence\<close> is idempotent. On the code the empty word
  between two spaces takes the capital letter that the sentence after a full stop should
  get, so the first pass leaves "there" in lower case and a second pass capitalizes it;
  and one pass removes only every second double comma of a chain.
\<close>

theorem normalizeSentence_not_idempotent:
  "normalizeSentence ''hi.  there'' = ''Hi. there''
   \<and> normalizeSentence (normalizeSentence ''hi.  there'') = ''Hi. There''
   \<and> normalizeSentence '', , ,'' = '', ,''
   \<and> normalizeSentence (normalizeSentence '', , ,'') = '',''"
  by code_simp

section \<open>The folder id has thirteen digits\<close>

text \<open>
  The rounding on known values: \<open>sevenTenths\<close> is the double of the literal 0.7, and
  \<^verbatim>\<open>0.1 + 0.2\<close> is 0.30000000000000004.
\<close>

lemma fl_examples:
  "fl (7 / 10) = sevenTenths"
  "fl (fl (1 / 10) + fl (2 / 10)) = 5404319552844596 / 18014398509481984"
  "fl (9007199254740993) = 9007199254740992"
  by code_simp+

text \<open>
  Rounding decides a digit: the product of the reals \<open>sevenTenths * 10\<close> lies below 7, the
  double the source computes is 7.
\<close>

lemma sevenTenths_rounds: "\<lfloor>sevenTenths * 10\<rfloor> = 6 \<and> fl (sevenTenths * 10) = 7"
  by code_simp

lemma sevenTenths_double: "isDouble sevenTenths \<and> 0 \<le> sevenTenths \<and> sevenTenths < 1"
  by code_simp

lemma sevenTenths_digits:
  "Math_floor (fl (sevenTenths * 9)) = 6"
  "Math_floor (fl (sevenTenths * 10)) = 7"
  by code_simp+

lemma belowOne_double: "isDouble belowOne \<and> 0 \<le> belowOne \<and> belowOne < 1"
  by code_simp

lemma belowOne_digits:
  "Math_floor (fl (belowOne * 9)) = 8"
  "Math_floor (fl (belowOne * 10)) = 9"
  by code_simp+

lemma folderId_sevenTenths: "generateUniqueFolderId (\<lambda>k. sevenTenths) = 7777777777777"
  by (simp add: generateUniqueFolderId_def folderIdLoop.simps fl_numeral sevenTenths_digits)

lemma folderId_belowOne: "generateUniqueFolderId (\<lambda>k. belowOne) = 9999999999999"
  by (simp add: generateUniqueFolderId_def folderIdLoop.simps fl_numeral belowOne_digits)

text \<open>
  C10: whatever the thirteen draws of \<^verbatim>\<open>Math.random()\<close> are (each a double in
  \<open>[0, 1)\<close>), \<^verbatim>\<open>generateUniqueFolderId\<close> returns an integer between \<open>10^12\<close> and
  \<open>10^13 - 1\<close>: thirteen decimal digits, the first one not zero. The products are the
  rounded ones of the source: a draw below 1 is at most \<open>1 - 2^-53\<close>, and its products
  with 9 and 10 round to doubles below 9 and 10.
\<close>

theorem generateUniqueFolderId_range:
  assumes "\<forall>k<13. isDouble (rnd k) \<and> 0 \<le> rnd k \<and> rnd k < 1"
  shows "\<exists>n::int. generateUniqueFolderId rnd = of_int n \<and> 10 ^ 12 \<le> n \<and> n \<le> 10 ^ 13 - 1"
proof -
  have "isDouble (rnd 0) \<and> 0 \<le> rnd 0 \<and> rnd 0 < 1" using assms by simp
  then obtain d where d: "Math_floor (fl (rnd 0 * 9)) = of_int d" "0 \<le> d" "d \<le> 8"
    using digit_bounds [of "rnd 0" 9] by auto
  have "fl (of_int (d + 1)) = of_int (d + 1)" using d(2,3) by (intro fl_of_int) simp_all
  then have first: "fl (Math_floor (fl (rnd 0 * 9)) + 1) = of_int (d + 1)"
    unfolding d(1) by simp
  have "\<exists>m. folderIdLoop rnd 0 (fl (Math_floor (fl (rnd 0 * 9)) + 1)) = of_int m
           \<and> 10 ^ 12 \<le> m \<and> m \<le> 10 ^ 13 - 1"
    using assms d(2,3) by (intro folderIdLoop_bounds [OF _ _ first]) auto
  then show ?thesis by (simp add: generateUniqueFolderId_def)
qed

theorem generateUniqueFolderId_range_witness:
  "generateUniqueFolderId (\<lambda>k. sevenTenths) = 7777777777777
   \<and> (\<exists>n::int. generateUniqueFolderId (\<lambda>k. sevenTenths) = of_int n
         \<and> 10 ^ 12 \<le> n \<and> n \<le> 10 ^ 13 - 1)
   \<and> generateUniqueFolderId (\<lambda>k. belowOne) = 9999999999999
   \<and> (\<exists>n::int. generateUniqueFolderId (\<lambda>k. belowOne) = of_int n
         \<and> 10 ^ 12 \<le> n \<and> n \<le> 10 ^ 13 - 1)"
  using generateUniqueFolderId_range [of "\<lambda>k. sevenTenths"]
    generateUniqueFolderId_range [of "\<lambda>k. belowOne"]
    sevenTenths_double belowOne_double folderId_sevenTenths folderId_belowOne
  by simp

end

